theory Spec2Isabelle
  imports Complex_Main "HOL-Library.Sublist" "HOL-Library.Word"
begin

section \<open>Values, errors and the environment\<close>

text \<open>
  The dataset code of \<^verbatim>\<open>dataset.py\<close> talks to three collaborators that are not part of the
  repository: pandas (the metadata table), the file system (\<^verbatim>\<open>os.path.exists\<close>) and PIL
  (\<^verbatim>\<open>Image.open\<close>). They are the fields of the record \<open>env\<close>; every function of the
  model takes the environment as an argument. Exceptions are values of the type \<open>error\<close>.
\<close>

datatype error =
    AttributeError
  | ValueError
  | AssertionError
  | TypeError
  | NotImplementedError
  | ParserError
  | IOError

text \<open>
  The elements of the accumulator lists: image paths are strings, labels are integers, and
  \<^verbatim>\<open>getattr\<close> on a class object can also return a built-in method.
\<close>

datatype pyval = PInt int | PStr string | PBuiltin string

text \<open>
  A decoded image, as \<^verbatim>\<open>np.array(Image.open(p))\<close> gives it for an RGB file: the pixels
  in row-major order, each pixel three bytes. The reductions of the source run over the
  axes \<^verbatim>\<open>(0, 1)\<close>, so the height and the width themselves play no role.
\<close>

type_synonym pixel = "8 word \<times> 8 word \<times> 8 word"
type_synonym image = "pixel list"

text \<open>
  A data frame is its columns in order. A cell, as \<^verbatim>\<open>tolist()\<close> hands it over, is a
  string, or what pandas infers for a column of digits, of missing values or of booleans:
  an integer, a float (NaN for a missing value, \<open>None\<close> here) or a boolean.
\<close>

datatype cell = CStr string | CInt int | CFloat "real option" | CBool bool

fun is_str :: "cell \<Rightarrow> bool" where
  "is_str (CStr name) = True"
| "is_str c = False"

type_synonym dataframe = "(string \<times> cell list) list"

record env =
  read_csv :: "string \<Rightarrow> error + dataframe"
  path_exists :: "string \<Rightarrow> bool"
  image_open :: "string \<Rightarrow> error + image"

section \<open>Module-level helpers\<close>

definition IMG_EXTENSIONS :: "string list" where
  "IMG_EXTENSIONS =
     [''.jpg'', ''.JPG'', ''.jpeg'', ''.JPEG'', ''.png'',
      ''.PNG'', ''.ppm'', ''.PPM'', ''.bmp'', ''.BMP'']"

definition is_image_file :: "string \<Rightarrow> bool" where
  "is_image_file filename = list_ex (\<lambda>extension. suffix extension filename) IMG_EXTENSIONS"

text \<open>
  \<^verbatim>\<open>os.path.join\<close> of \<^verbatim>\<open>posixpath\<close>: a component that starts with the separator
  replaces what was joined so far; otherwise it is appended, after a separator unless the
  path is empty or already ends with one. A component that is not a string raises
  \<^verbatim>\<open>TypeError\<close>.
\<close>

definition join2 :: "string \<Rightarrow> string \<Rightarrow> string" where
  "join2 path b =
     (if prefix ''/'' b then b
      else if path = [] \<or> suffix ''/'' path then path @ b
      else path @ ''/'' @ b)"

fun os_path_join :: "string \<Rightarrow> cell list \<Rightarrow> error + string" where
  "os_path_join path [] = Inr path"
| "os_path_join path (CStr b # bs) = os_path_join (join2 path b) bs"
| "os_path_join path (b # bs) = Inl TypeError"

text \<open>
  \<^verbatim>\<open>str.split(sep)\<close> for a one-character separator: the scan keeps the field read so far
  (reversed) and closes it at every separator and at the end of the string, so a string
  with \<open>n\<close> separators has \<open>n + 1\<close> fields, empty ones included.
\<close>

fun split_acc :: "char \<Rightarrow> string \<Rightarrow> string \<Rightarrow> string list" where
  "split_acc sep acc [] = [rev acc]"
| "split_acc sep acc (c # cs) =
     (if c = sep then rev acc # split_acc sep [] cs else split_acc sep (c # acc) cs)"

definition split :: "string \<Rightarrow> char \<Rightarrow> string list" where
  "split s sep = split_acc sep [] s"

section \<open>The class objects and their shared lists\<close>

text \<open>
  The class bodies create three list objects when the module is imported:
  \<^verbatim>\<open>MaskBaseDataset.image_paths\<close>, \<^verbatim>\<open>MaskBaseDataset.labels\<close> and
  \<^verbatim>\<open>MaskMultiLabelDataset.gender_labels\<close>. They live in a heap, at the addresses 0, 1
  and 2. A class dictionary maps an attribute name to the address of its list; an instance
  never gets a list attribute of its own (\<^verbatim>\<open>__init__\<close> assigns none), so
  \<^verbatim>\<open>self.image_paths\<close> is resolved in the class of the instance and then in its base class.
\<close>

type_synonym addr = nat
type_synonym heap = "addr \<Rightarrow> pyval list"

datatype cls = MaskBaseDataset | MaskMultiLabelDataset

definition module_heap :: heap where
  "module_heap = (\<lambda>a. [])"

fun class_dict :: "cls \<Rightarrow> string \<Rightarrow> addr option" where
  "class_dict MaskBaseDataset name =
     (if name = ''image_paths'' then Some 0 else if name = ''labels'' then Some 1 else None)"
| "class_dict MaskMultiLabelDataset name =
     (if name = ''gender_labels'' then Some 2 else None)"

fun bases :: "cls \<Rightarrow> cls list" where
  "bases MaskBaseDataset = []"
| "bases MaskMultiLabelDataset = [MaskBaseDataset]"

definition resolve :: "cls \<Rightarrow> string \<Rightarrow> addr option" where
  "resolve c name =
     (case List.find (\<lambda>k. class_dict k name \<noteq> None) (c # bases c) of
        None \<Rightarrow> None
      | Some k \<Rightarrow> class_dict k name)"

text \<open>
  A float is a real number or NaN (\<open>None\<close>): the arithmetic of the statistics is
  modelled exactly, without rounding. An array is a scalar or a vector of floats.
\<close>

type_synonym fl = "real option"

datatype ndarray = Scalar fl | Vec "fl list"

text \<open>The instance: \<open>mean\<close> and \<open>std\<close> are \<open>None\<close> or an array.\<close>

record dataset =
  klass :: cls
  img_root :: string
  meta_path :: string
  phase :: string
  mean :: "ndarray option"
  std :: "ndarray option"

text \<open>
  \<^verbatim>\<open>self.<name>.append(v)\<close>: the lookup raises \<^verbatim>\<open>AttributeError\<close> when no class on the
  resolution order has the attribute; otherwise the list object found is extended in place.
\<close>

definition list_append :: "dataset \<Rightarrow> string \<Rightarrow> pyval \<Rightarrow> heap \<Rightarrow> error option \<times> heap" where
  "list_append self name v h =
     (case resolve (klass self) name of
        None \<Rightarrow> (Some AttributeError, h)
      | Some a \<Rightarrow> (None, h(a := h a @ [v])))"

definition get_list :: "dataset \<Rightarrow> string \<Rightarrow> heap \<Rightarrow> error + pyval list" where
  "get_list self name h =
     (case resolve (klass self) name of
        None \<Rightarrow> Inl AttributeError
      | Some a \<Rightarrow> Inr (h a))"

text \<open>
  A \<^verbatim>\<open>for\<close> loop whose body mutates the heap and may raise: the exception ends the loop
  and the heap keeps what the body had written before it.
\<close>

fun for_each :: "('a \<Rightarrow> heap \<Rightarrow> error option \<times> heap) \<Rightarrow> 'a list \<Rightarrow> heap \<Rightarrow> error option \<times> heap" where
  "for_each body [] h = (None, h)"
| "for_each body (x # xs) h =
     (case body x h of
        (Some e, h') \<Rightarrow> (Some e, h')
      | (None, h') \<Rightarrow> for_each body xs h')"

definition seq :: "(heap \<Rightarrow> error option \<times> heap) \<Rightarrow> (heap \<Rightarrow> error option \<times> heap) \<Rightarrow> heap \<Rightarrow> error option \<times> heap" where
  "seq f g h = (case f h of (Some e, h') \<Rightarrow> (Some e, h') | (None, h') \<Rightarrow> g h')"

section \<open>Labels\<close>

definition Labels_mask :: int where "Labels_mask = 0"
definition Labels_incorrect :: int where "Labels_incorrect = 1"
definition Labels_normal :: int where "Labels_normal = 2"

text \<open>The dictionary \<^verbatim>\<open>_file_names\<close>, in insertion order, which is the order of iteration.\<close>

definition file_names :: "(string \<times> int) list" where
  "file_names =
     [(''mask1.jpg'', Labels_mask),
      (''mask2.jpg'', Labels_mask),
      (''mask3.jpg'', Labels_mask),
      (''mask4.jpg'', Labels_mask),
      (''mask5.jpg'', Labels_mask),
      (''incorrect_mask.jpg'', Labels_incorrect),
      (''normal.jpg'', Labels_normal)]"

text \<open>
  \<^verbatim>\<open>getattr(GenderLabels, name)\<close>. Beside \<^verbatim>\<open>male\<close> and \<^verbatim>\<open>female\<close> the class object
  answers to the names it inherits from \<^verbatim>\<open>type\<close> and \<^verbatim>\<open>object\<close> (CPython 3.11);
  \<^verbatim>\<open>mro\<close> is the only one of them spelled without an underscore. The name
  \<^verbatim>\<open>__abstractmethods__\<close> is listed by \<^verbatim>\<open>dir\<close> but raises \<^verbatim>\<open>AttributeError\<close> on a class
  that is not abstract, so it is not among them.
\<close>

definition inherited_class_attrs :: "string list" where
  "inherited_class_attrs =
     [''__annotations__'', ''__base__'', ''__bases__'', ''__basicsize__'',
      ''__call__'', ''__class__'', ''__delattr__'', ''__dict__'',
      ''__dictoffset__'', ''__dir__'', ''__doc__'', ''__eq__'', ''__flags__'', ''__format__'',
      ''__ge__'', ''__getattribute__'', ''__getstate__'', ''__gt__'', ''__hash__'',
      ''__init__'', ''__init_subclass__'', ''__instancecheck__'', ''__itemsize__'', ''__le__'',
      ''__lt__'', ''__module__'', ''__mro__'', ''__name__'', ''__ne__'', ''__new__'', ''__or__'',
      ''__prepare__'', ''__qualname__'', ''__reduce__'', ''__reduce_ex__'', ''__repr__'',
      ''__ror__'', ''__setattr__'', ''__sizeof__'', ''__str__'', ''__subclasscheck__'',
      ''__subclasses__'', ''__subclasshook__'', ''__text_signature__'', ''__weakref__'',
      ''__weakrefoffset__'', ''mro'']"

definition GenderLabels_getattr :: "string \<Rightarrow> error + pyval" where
  "GenderLabels_getattr name =
     (if name = ''male'' then Inr (PInt 0)
      else if name = ''female'' then Inr (PInt 1)
      else if name \<in> set inherited_class_attrs then Inr (PBuiltin name)
      else Inl AttributeError)"

section \<open>The dataset indexer\<close>

text \<open>\<^verbatim>\<open>df.path.tolist()\<close>: the column named \<^verbatim>\<open>path\<close>, or \<^verbatim>\<open>AttributeError\<close> without one.\<close>

definition read_profiles :: "env \<Rightarrow> string \<Rightarrow> error + cell list" where
  "read_profiles e p =
     (case read_csv e p of
        Inl err \<Rightarrow> Inl err
      | Inr df \<Rightarrow> (case map_of df ''path'' of None \<Rightarrow> Inl AttributeError | Some col \<Rightarrow> Inr col))"

text \<open>The body of the inner loop of \<^verbatim>\<open>MaskBaseDataset.setup\<close>.\<close>

definition base_body :: "env \<Rightarrow> dataset \<Rightarrow> cell \<Rightarrow> string \<times> int \<Rightarrow> heap \<Rightarrow> error option \<times> heap" where
  "base_body e self profile fl h =
     (case os_path_join (img_root self) [profile, CStr (fst fl)] of
        Inl err \<Rightarrow> (Some err, h)
      | Inr img_path \<Rightarrow>
          if path_exists e img_path \<and> is_image_file img_path
          then seq (list_append self ''image_paths'' (PStr img_path))
                   (list_append self ''labels'' (PInt (snd fl))) h
          else (None, h))"

definition MaskBaseDataset_setup :: "env \<Rightarrow> dataset \<Rightarrow> heap \<Rightarrow> error option \<times> heap" where
  "MaskBaseDataset_setup e self h =
     (case read_profiles e (meta_path self) of
        Inl err \<Rightarrow> (Some err, h)
      | Inr profiles \<Rightarrow>
          for_each (\<lambda>profile. for_each (base_body e self profile) file_names) profiles h)"

text \<open>
  The tail of the inner loop of \<^verbatim>\<open>MaskMultiLabelDataset.setup\<close>: \<^verbatim>\<open>profile.split\<close> is an
  attribute of strings only; unpacking the split into four names raises \<^verbatim>\<open>ValueError\<close>
  unless there are exactly four fields; the second field is looked up on the class
  \<^verbatim>\<open>GenderLabels\<close>.
\<close>

definition gender_label_of :: "cell \<Rightarrow> error + pyval" where
  "gender_label_of profile =
     (case profile of
        CStr name \<Rightarrow>
          (case split name CHR ''_'' of
             [ident, gender, race, age] \<Rightarrow> GenderLabels_getattr gender
           | _ \<Rightarrow> Inl ValueError)
      | _ \<Rightarrow> Inl AttributeError)"

definition gender_step :: "dataset \<Rightarrow> cell \<Rightarrow> heap \<Rightarrow> error option \<times> heap" where
  "gender_step self profile h =
     (case gender_label_of profile of
        Inl err \<Rightarrow> (Some err, h)
      | Inr gender_label \<Rightarrow> list_append self ''gender_labels'' gender_label h)"

definition multi_body :: "env \<Rightarrow> dataset \<Rightarrow> cell \<Rightarrow> string \<times> int \<Rightarrow> heap \<Rightarrow> error option \<times> heap" where
  "multi_body e self profile fl h =
     (case os_path_join (img_root self) [profile, CStr (fst fl)] of
        Inl err \<Rightarrow> (Some err, h)
      | Inr img_path \<Rightarrow>
          if path_exists e img_path \<and> is_image_file img_path
          then seq (list_append self ''image_paths'' (PStr img_path))
                (seq (list_append self ''labels'' (PInt (snd fl)))
                     (gender_step self profile)) h
          else (None, h))"

definition MaskMultiLabelDataset_setup :: "env \<Rightarrow> dataset \<Rightarrow> heap \<Rightarrow> error option \<times> heap" where
  "MaskMultiLabelDataset_setup e self h =
     (case read_profiles e (meta_path self) of
        Inl err \<Rightarrow> (Some err, h)
      | Inr profiles \<Rightarrow>
          for_each (\<lambda>profile. for_each (multi_body e self profile) file_names) profiles h)"

text \<open>\<^verbatim>\<open>self.setup()\<close>: the method of the class of the instance.\<close>

definition self_setup :: "env \<Rightarrow> dataset \<Rightarrow> heap \<Rightarrow> error option \<times> heap" where
  "self_setup e self h =
     (case klass self of
        MaskBaseDataset \<Rightarrow> MaskBaseDataset_setup e self h
      | MaskMultiLabelDataset \<Rightarrow> MaskMultiLabelDataset_setup e self h)"

text \<open>\<^verbatim>\<open>__len__\<close>\<close>

definition len :: "dataset \<Rightarrow> heap \<Rightarrow> error + nat" where
  "len self h = map_sum id length (get_list self ''image_paths'' h)"

section \<open>Channel statistics\<close>

definition fl_div :: "fl \<Rightarrow> real \<Rightarrow> fl" where
  "fl_div x c = map_option (\<lambda>v. v / c) x"

definition fl_sq :: "fl \<Rightarrow> fl" where
  "fl_sq x = map_option (\<lambda>v. v * v) x"

definition fl_sub :: "fl \<Rightarrow> fl \<Rightarrow> fl" where
  "fl_sub x y = (case (x, y) of (Some a, Some b) \<Rightarrow> Some (a - b) | _ \<Rightarrow> None)"

text \<open>\<^verbatim>\<open>x ** 0.5\<close>: NaN for a negative (or NaN) argument, the square root otherwise.\<close>

definition fl_pow_half :: "fl \<Rightarrow> fl" where
  "fl_pow_half x = (case x of None \<Rightarrow> None | Some v \<Rightarrow> if v < 0 then None else Some (sqrt v))"

text \<open>\<^verbatim>\<open>np.mean\<close> of a flat sequence: NaN when it is empty or holds a NaN.\<close>

definition np_mean :: "fl list \<Rightarrow> fl" where
  "np_mean xs =
     (if xs = [] \<or> None \<in> set xs then None
      else Some (sum_list (map the xs) / real (length xs)))"

text \<open>
  \<^verbatim>\<open>np.mean(rows, axis=0)\<close> of a list of equally long vectors: the vector of the column
  means; of the empty list it is the scalar NaN.
\<close>

definition np_mean_axis0 :: "fl list list \<Rightarrow> ndarray" where
  "np_mean_axis0 rows =
     (if rows = [] then Scalar None
      else Vec (map (\<lambda>k. np_mean (map (\<lambda>row. row ! k) rows)) [0..<length (hd rows)]))"

fun arr_map :: "(fl \<Rightarrow> fl) \<Rightarrow> ndarray \<Rightarrow> ndarray" where
  "arr_map f (Scalar x) = Scalar (f x)"
| "arr_map f (Vec xs) = Vec (map f xs)"

text \<open>Subtraction with broadcasting; two vectors have the same length wherever it is used.\<close>

fun arr_sub :: "ndarray \<Rightarrow> ndarray \<Rightarrow> ndarray" where
  "arr_sub (Scalar x) (Scalar y) = Scalar (fl_sub x y)"
| "arr_sub (Scalar x) (Vec ys) = Vec (map (\<lambda>y. fl_sub x y) ys)"
| "arr_sub (Vec xs) (Scalar y) = Vec (map (\<lambda>x. fl_sub x y) xs)"
| "arr_sub (Vec xs) (Vec ys) = Vec (map (\<lambda>(x, y). fl_sub x y) (zip xs ys))"

text \<open>
  \<^verbatim>\<open>image.mean(axis=(0, 1))\<close> and \<^verbatim>\<open>(image ** 2).mean(axis=(0, 1))\<close> of the image cast to
  \<^verbatim>\<open>int32\<close>: one float per channel. A square of a byte is below \<open>2 ^ 31\<close>, so the
  32-bit square does not wrap.
\<close>

definition channels :: "image \<Rightarrow> int list list" where
  "channels img =
     [map (\<lambda>(r, g, b). uint r) img, map (\<lambda>(r, g, b). uint g) img, map (\<lambda>(r, g, b). uint b) img]"

definition image_mean :: "image \<Rightarrow> fl list" where
  "image_mean img = map (\<lambda>ch. np_mean (map (\<lambda>v. Some (real_of_int v)) ch)) (channels img)"

definition image_sq_mean :: "image \<Rightarrow> fl list" where
  "image_sq_mean img = map (\<lambda>ch. np_mean (map (\<lambda>v. Some (real_of_int (v * v))) ch)) (channels img)"

text \<open>\<^verbatim>\<open>Image.open\<close> of a list element; the elements of \<^verbatim>\<open>image_paths\<close> are strings.\<close>

definition open_path :: "env \<Rightarrow> pyval \<Rightarrow> error + image" where
  "open_path e v = (case v of PStr p \<Rightarrow> image_open e p | _ \<Rightarrow> Inl AttributeError)"

text \<open>The loop of \<^verbatim>\<open>calc_statistics\<close>, with the lists \<^verbatim>\<open>sums\<close> and \<^verbatim>\<open>squared\<close>.\<close>

fun stat_loop :: "env \<Rightarrow> pyval list \<Rightarrow> fl list list \<times> fl list list \<Rightarrow> error + fl list list \<times> fl list list" where
  "stat_loop e [] acc = Inr acc"
| "stat_loop e (image_path # rest) (sums_list, squared) =
     (case open_path e image_path of
        Inl err \<Rightarrow> Inl err
      | Inr img \<Rightarrow>
          stat_loop e rest (sums_list @ [image_mean img], squared @ [image_sq_mean img]))"

definition statistics_of :: "fl list list \<times> fl list list \<Rightarrow> ndarray \<times> ndarray" where
  "statistics_of acc =
     (let m = arr_map (\<lambda>x. fl_div x 255) (np_mean_axis0 (fst acc));
          s = arr_map (\<lambda>x. fl_div x 255)
                (arr_map fl_pow_half (arr_sub (np_mean_axis0 (snd acc)) (arr_map fl_sq m)))
      in (m, s))"

definition calc_statistics :: "env \<Rightarrow> dataset \<Rightarrow> heap \<Rightarrow> error + dataset" where
  "calc_statistics e self h =
     (let has_statistics = (mean self \<noteq> None \<and> std self \<noteq> None) in
      if \<not> has_statistics then
        (case get_list self ''image_paths'' h of
           Inl err \<Rightarrow> Inl err
         | Inr paths \<Rightarrow>
            (case stat_loop e (take 3000 paths) ([], []) of
               Inl err \<Rightarrow> Inl err
             | Inr acc \<Rightarrow>
                 Inr (self\<lparr>mean := Some (fst (statistics_of acc)),
                           std := Some (snd (statistics_of acc))\<rparr>)))
      else Inr self)"

text \<open>
  \<^verbatim>\<open>__init__\<close>, shared by both classes. The arguments \<^verbatim>\<open>mean\<close> and \<^verbatim>\<open>std\<close> are
  accepted; the fields are assigned the two literal lists.
\<close>

definition init :: "env \<Rightarrow> cls \<Rightarrow> string \<Rightarrow> string \<Rightarrow> string \<Rightarrow> ndarray option \<Rightarrow> ndarray option \<Rightarrow> heap \<Rightarrow> (error + dataset) \<times> heap" where
  "init e c img_root_arg meta_path_arg phase_arg mean_arg std_arg h =
     (let self = \<lparr>klass = c, img_root = img_root_arg, meta_path = meta_path_arg,
                  phase = phase_arg,
                  mean = Some (Vec [Some 0.5366, Some 0.5323, Some 0.5183]),
                  std = Some (Vec [Some 0.2456, Some 0.2517, Some 0.2605])\<rparr>
      in case self_setup e self h of
           (Some err, h') \<Rightarrow> (Inl err, h')
         | (None, h') \<Rightarrow>
             (case calc_statistics e self h' of
                Inl err \<Rightarrow> (Inl err, h')
              | Inr self' \<Rightarrow> (Inr self', h')))"

section \<open>Phase and transform pipelines\<close>

text \<open>
  The transforms of torchvision are outside the repository: they are the fields of the
  record \<open>lib\<close>, each a function of its parameters, of the random numbers it draws and of
  its input, which may raise. The random numbers of one call of a pipeline are the record
  \<open>draws\<close>; \<open>noise k\<close> is the \<open>k\<close>-th sample of \<^verbatim>\<open>torch.randn\<close>. A tensor is
  the list of its elements.
\<close>

type_synonym tensor = "real list"

record draws =
  angle :: real
  sigma :: real
  jitter :: "real list"
  noise :: "nat \<Rightarrow> real"

record 'i lib =
  Resize :: "nat \<times> nat \<Rightarrow> 'i \<Rightarrow> error + 'i"
  RandomRotation :: "real \<times> real \<Rightarrow> real \<Rightarrow> 'i \<Rightarrow> error + 'i"
  GaussianBlur :: "nat \<Rightarrow> real \<times> real \<Rightarrow> real \<Rightarrow> 'i \<Rightarrow> error + 'i"
  ColorJitter :: "real \<Rightarrow> real \<Rightarrow> real \<Rightarrow> real list \<Rightarrow> 'i \<Rightarrow> error + 'i"
  ToTensor :: "'i \<Rightarrow> error + tensor"
  Normalize :: "ndarray option \<Rightarrow> ndarray option \<Rightarrow> tensor \<Rightarrow> error + tensor"

definition bind_err :: "error + 'a \<Rightarrow> ('a \<Rightarrow> error + 'b) \<Rightarrow> error + 'b" where
  "bind_err r f = (case r of Inl err \<Rightarrow> Inl err | Inr v \<Rightarrow> f v)"

text \<open>
  \<^verbatim>\<open>AddGaussianNoise.__call__\<close>: \<^verbatim>\<open>tensor + torch.randn(tensor.size()) * std + mean\<close>,
  element by element.
\<close>

definition AddGaussianNoise :: "real \<Rightarrow> real \<Rightarrow> (nat \<Rightarrow> real) \<Rightarrow> tensor \<Rightarrow> tensor" where
  "AddGaussianNoise mean_arg std_arg randn t =
     map (\<lambda>(x, n). x + n * std_arg + mean_arg) (zip t (map randn [0..<length t]))"

definition train_transform :: "'i lib \<Rightarrow> dataset \<Rightarrow> draws \<Rightarrow> 'i \<Rightarrow> error + tensor" where
  "train_transform L self d img =
     bind_err (Resize L (128, 96) img) (\<lambda>x1.
     bind_err (RandomRotation L (-8, 8) (angle d) x1) (\<lambda>x2.
     bind_err (GaussianBlur L 51 (0.1, 2.0) (sigma d) x2) (\<lambda>x3.
     bind_err (ColorJitter L 0.5 0.5 0.5 (jitter d) x3) (\<lambda>x4.
     bind_err (ToTensor L x4) (\<lambda>x5.
     bind_err (Normalize L (mean self) (std self) x5) (\<lambda>x6.
     Inr (AddGaussianNoise 0 1 (noise d) x6)))))))"

definition test_transform :: "'i lib \<Rightarrow> dataset \<Rightarrow> 'i \<Rightarrow> error + tensor" where
  "test_transform L self img =
     bind_err (Resize L (128, 96) img) (\<lambda>x1.
     bind_err (ToTensor L x1) (\<lambda>x2.
     Normalize L (mean self) (std self) x2))"

definition transform :: "'i lib \<Rightarrow> dataset \<Rightarrow> draws \<Rightarrow> 'i \<Rightarrow> error + tensor" where
  "transform L self d img =
     (if phase self = ''train'' then train_transform L self d img
      else if phase self = ''test'' then test_transform L self img
      else Inl AttributeError)"

text \<open>\<^verbatim>\<open>set_phase\<close>: the \<^verbatim>\<open>assert\<close> raises \<^verbatim>\<open>AssertionError\<close> (assertions enabled).\<close>

definition set_phase :: "dataset \<Rightarrow> string \<Rightarrow> error + dataset" where
  "set_phase self phase_arg =
     (if phase_arg \<in> set [''train'', ''test''] then Inr (self\<lparr>phase := phase_arg\<rparr>)
      else Inl AssertionError)"

section \<open>The model family\<close>

text \<open>
  A parameter carries its gradient flag and a tag for what wrote its data last. A layer
  is its kind and the parameters it owns; \<^verbatim>\<open>nn.Conv2d\<close> and \<^verbatim>\<open>nn.Linear\<close> are built
  with a weight and a bias, and a fresh \<^verbatim>\<open>nn.Parameter\<close> has \<^verbatim>\<open>requires_grad = True\<close>.
\<close>

datatype filler = Default | Pretrained | XavierUniform | Zeros | Ones | Normal_0_001

record param =
  requires_grad :: bool
  data :: filler

datatype module_kind =
    Conv2d nat nat nat nat nat
  | BatchNorm2d nat
  | ReLU
  | MaxPool2d nat nat
  | AdaptiveAvgPool2d nat nat
  | Dropout
  | Linear nat nat

record layer =
  kind :: module_kind
  weight :: "param option"
  bias :: "param option"

definition new_param :: "filler \<Rightarrow> param" where
  "new_param f = \<lparr>requires_grad = True, data = f\<rparr>"

definition with_params :: "filler \<Rightarrow> module_kind \<Rightarrow> layer" where
  "with_params f k = \<lparr>kind = k, weight = Some (new_param f), bias = Some (new_param f)\<rparr>"

definition plain :: "module_kind \<Rightarrow> layer" where
  "plain k = \<lparr>kind = k, weight = None, bias = None\<rparr>"

text \<open>\<^verbatim>\<open>module.parameters()\<close> of a sequence of layers.\<close>

definition layer_parameters :: "layer \<Rightarrow> param list" where
  "layer_parameters l =
     (case weight l of None \<Rightarrow> [] | Some w \<Rightarrow> [w]) @ (case bias l of None \<Rightarrow> [] | Some b \<Rightarrow> [b])"

definition parameters :: "layer list \<Rightarrow> param list" where
  "parameters ls = concat (map layer_parameters ls)"

datatype arch = MaskBaseModel | AlexNet | VGG19

record model =
  arch :: arch
  features :: "layer list"
  avgpool :: layer
  classifier :: "layer list"

text \<open>
  The feature extractor of torchvision's \<^verbatim>\<open>vgg19\<close> (configuration E, no batch norm): a
  3x3 convolution and a ReLU for a number of channels, a 2x2 max pooling for \<open>None\<close>.
  The library is outside the repository; its layers are given here as it builds them.
\<close>

definition vgg19_cfg :: "nat option list" where
  "vgg19_cfg =
     [Some 64, Some 64, None, Some 128, Some 128, None,
      Some 256, Some 256, Some 256, Some 256, None,
      Some 512, Some 512, Some 512, Some 512, None,
      Some 512, Some 512, Some 512, Some 512, None]"

fun make_layers :: "filler \<Rightarrow> nat \<Rightarrow> nat option list \<Rightarrow> layer list" where
  "make_layers f in_channels [] = []"
| "make_layers f in_channels (None # cfg) = plain (MaxPool2d 2 2) # make_layers f in_channels cfg"
| "make_layers f in_channels (Some v # cfg) =
     with_params f (Conv2d in_channels v 3 1 1) # plain ReLU # make_layers f v cfg"

definition build_layers :: "arch \<Rightarrow> nat \<Rightarrow> bool \<Rightarrow> error + model" where
  "build_layers a num_classes pretrained =
     (case a of
        MaskBaseModel \<Rightarrow> Inl NotImplementedError
      | AlexNet \<Rightarrow> Inr
          \<lparr>arch = AlexNet,
           features =
             [with_params Default (Conv2d 3 64 11 4 2), plain ReLU, plain (MaxPool2d 3 2),
              with_params Default (Conv2d 64 192 5 1 2), plain ReLU, plain (MaxPool2d 3 2),
              with_params Default (Conv2d 192 384 3 1 1), plain ReLU,
              with_params Default (Conv2d 384 256 3 1 1), plain ReLU,
              with_params Default (Conv2d 256 256 3 1 1), plain ReLU, plain (MaxPool2d 3 2)],
           avgpool = plain (AdaptiveAvgPool2d 6 6),
           classifier =
             [plain Dropout, with_params Default (Linear (256 * 6 * 6) 4096), plain ReLU,
              plain Dropout, with_params Default (Linear 4096 4096), plain ReLU,
              with_params Default (Linear 4096 num_classes)]\<rparr>
      | VGG19 \<Rightarrow> Inr
          \<lparr>arch = VGG19,
           features = make_layers (if pretrained then Pretrained else Default) 3 vgg19_cfg,
           avgpool = plain (AdaptiveAvgPool2d 7 7),
           classifier =
             [with_params Default (Linear (512 * 7 * 7) 4096), plain ReLU, plain Dropout,
              with_params Default (Linear 4096 4096), plain ReLU, plain Dropout,
              with_params Default (Linear 4096 num_classes)]\<rparr>)"

definition backbone_layers :: "model \<Rightarrow> error + layer list" where
  "backbone_layers m =
     (case arch m of
        MaskBaseModel \<Rightarrow> Inl NotImplementedError
      | AlexNet \<Rightarrow> Inr (features m)
      | VGG19 \<Rightarrow> Inr (features m))"

definition classifier_layers :: "model \<Rightarrow> error + layer list" where
  "classifier_layers m =
     (case arch m of
        MaskBaseModel \<Rightarrow> Inl NotImplementedError
      | AlexNet \<Rightarrow> Inr (classifier m)
      | VGG19 \<Rightarrow> Inr (classifier m))"

text \<open>\<^verbatim>\<open>_initialize_weights\<close>: one step of the loop over \<^verbatim>\<open>self.modules()\<close>.\<close>

definition fill :: "filler \<Rightarrow> param option \<Rightarrow> param option" where
  "fill f p = map_option (\<lambda>q. q\<lparr>data := f\<rparr>) p"

definition init_layer :: "layer \<Rightarrow> layer" where
  "init_layer l =
     (case kind l of
        Conv2d i out k st pad \<Rightarrow> l\<lparr>weight := fill XavierUniform (weight l), bias := fill Zeros (bias l)\<rparr>
      | BatchNorm2d n \<Rightarrow> l\<lparr>weight := fill Ones (weight l), bias := fill Zeros (bias l)\<rparr>
      | Linear i out \<Rightarrow> l\<lparr>weight := fill Normal_0_001 (weight l), bias := fill Zeros (bias l)\<rparr>
      | _ \<Rightarrow> l)"

definition initialize_weights :: "model \<Rightarrow> model" where
  "initialize_weights m =
     m\<lparr>features := map init_layer (features m),
       avgpool := init_layer (avgpool m),
       classifier := map init_layer (classifier m)\<rparr>"

text \<open>
  \<^verbatim>\<open>_freeze_net\<close>: the parameters reached through \<^verbatim>\<open>backbone_layers()\<close> are the
  parameter objects of the feature extractor, so the assignment shows in the model.
\<close>

definition freeze_param :: "param \<Rightarrow> param" where
  "freeze_param q = q\<lparr>requires_grad := False\<rparr>"

definition freeze_layer :: "layer \<Rightarrow> layer" where
  "freeze_layer l = l\<lparr>weight := map_option freeze_param (weight l),
                       bias := map_option freeze_param (bias l)\<rparr>"

definition freeze_net :: "model \<Rightarrow> error + model" where
  "freeze_net m =
     (case backbone_layers m of
        Inl err \<Rightarrow> Inl err
      | Inr ls \<Rightarrow> Inr (m\<lparr>features := map freeze_layer ls\<rparr>))"

text \<open>\<^verbatim>\<open>MaskBaseModel.__init__\<close>\<close>

definition construct :: "arch \<Rightarrow> nat \<Rightarrow> bool \<Rightarrow> bool \<Rightarrow> error + model" where
  "construct a num_classes pretrained freeze =
     (case build_layers a num_classes pretrained of
        Inl err \<Rightarrow> Inl err
      | Inr m0 \<Rightarrow>
          (let m1 = (if \<not> pretrained then initialize_weights m0 else m0)
           in if freeze then freeze_net m1 else Inr m1))"

section \<open>Notions used in the statements\<close>

text \<open>
  The three list objects are read through \<open>image_paths\<close>, \<open>labels\<close> and
  \<open>gender_labels\<close>; \<open>extend\<close> appends to each of them. For a profile name, \<open>hit\<close>
  is the pair of path and label that one canonical file name contributes (none when the
  file is absent); \<open>found\<close> collects the hits of the seven file names in order for a
  cell that is a string and is empty for any other cell, and \<open>entries\<close> collects those
  of a list of cells. A cell is \<open>clean\<close> when scanning it raises nothing: it is a
  string, and it has no file on disk or its name yields a gender label.
\<close>

definition extend :: "heap \<Rightarrow> pyval list \<Rightarrow> pyval list \<Rightarrow> pyval list \<Rightarrow> heap" where
  "extend h ps ls gs =
     (\<lambda>a. if a = 0 then h 0 @ ps else if a = 1 then h 1 @ ls else if a = 2 then h 2 @ gs else h a)"

definition hit :: "env \<Rightarrow> dataset \<Rightarrow> string \<Rightarrow> string \<times> int \<Rightarrow> (string \<times> int) list" where
  "hit e self name fl =
     (let p = join2 (join2 (img_root self) name) (fst fl)
      in if path_exists e p \<and> is_image_file p then [(p, snd fl)] else [])"

definition found :: "env \<Rightarrow> dataset \<Rightarrow> cell \<Rightarrow> (string \<times> int) list" where
  "found e self profile =
     (case profile of
        CStr name \<Rightarrow> concat (map (hit e self name) file_names)
      | _ \<Rightarrow> [])"

definition entries :: "env \<Rightarrow> dataset \<Rightarrow> cell list \<Rightarrow> (string \<times> int) list" where
  "entries e self profiles = concat (map (found e self) profiles)"

definition paths_of :: "(string \<times> int) list \<Rightarrow> pyval list" where
  "paths_of es = map (\<lambda>x. PStr (fst x)) es"

definition labels_of :: "(string \<times> int) list \<Rightarrow> pyval list" where
  "labels_of es = map (\<lambda>x. PInt (snd x)) es"

definition genders_of :: "env \<Rightarrow> dataset \<Rightarrow> cell \<Rightarrow> pyval list" where
  "genders_of e self profile =
     (case gender_label_of profile of
        Inl err \<Rightarrow> []
      | Inr g \<Rightarrow> replicate (length (found e self profile)) g)"

definition clean :: "env \<Rightarrow> dataset \<Rightarrow> cell \<Rightarrow> bool" where
  "clean e self profile =
     (is_str profile \<and> (found e self profile = [] \<or> isl (gender_label_of profile) = False))"

definition image_paths :: "heap \<Rightarrow> pyval list" where "image_paths h = h 0"

definition labels :: "heap \<Rightarrow> pyval list" where "labels h = h 1"

definition gender_labels :: "heap \<Rightarrow> pyval list" where "gender_labels h = h 2"

subsection \<open>Concrete inputs\<close>

text \<open>
  \<open>example_env\<close> is an environment whose metadata table lists the given profiles and
  whose disk holds the given files, each a single white pixel; \<open>broken_env\<close> is one
  whose table cannot be parsed. \<open>example_self\<close> is an instance with both statistics
  unset, as \<^verbatim>\<open>calc_statistics\<close> needs them to compute. \<open>after_base\<close> and
  \<open>after_multi\<close> are the heaps after a base dataset, and then a multi-label one, were
  constructed over \<open>e0\<close>. In \<open>e_bad\<close> and \<open>e_other\<close> a well-formed
  profile is followed by one with a single field, and by one whose gender field is
  \<open>other\<close>; both profiles have their \<open>mask1.jpg\<close> on disk. \<open>e_skip\<close>
  is \<open>e_bad\<close> without the file of the second profile, and in \<open>digits_env\<close> the only
  row is the integer 123, with \<open>data/123/mask1.jpg\<close> on disk. \<open>example_lib\<close> takes every library transform for the
  identity, and \<open>alexnet_frozen\<close> is the model that
  \<^verbatim>\<open>AlexNet(3, pretrained=False, freeze=True)\<close> is expected to be.
\<close>

definition example_env :: "string list \<Rightarrow> string list \<Rightarrow> env" where
  "example_env profiles files =
     \<lparr>read_csv = (\<lambda>p. Inr [(''path'', map CStr profiles)]),
      path_exists = (\<lambda>p. p \<in> set files),
      image_open = (\<lambda>p. if p \<in> set files then Inr [(255, 255, 255)] else Inl IOError)\<rparr>"

definition example_self :: "cls \<Rightarrow> dataset" where
  "example_self c = \<lparr>klass = c, img_root = ''data'', meta_path = ''meta.csv'', phase = ''train'',
                     mean = None, std = None\<rparr>"

definition e0 :: env where
  "e0 = example_env [''000001_male_Asian_20''] [''data/000001_male_Asian_20/mask1.jpg'']"

definition after_base :: heap where
  "after_base = snd (init e0 MaskBaseDataset ''data'' ''meta.csv'' ''train'' None None module_heap)"

definition after_multi :: heap where
  "after_multi = snd (init e0 MaskMultiLabelDataset ''data'' ''meta.csv'' ''train'' None None after_base)"

text \<open>
  The standard deviation as the specification words it, \<open>sqrt (E[X^2] - E[X]^2)\<close> with
  \<open>X\<close> ranging over the intensities of one channel scaled to \<open>[0, 1]\<close>.
\<close>

definition spec_std :: "int list \<Rightarrow> real" where
  "spec_std xs =
     (let X = map (\<lambda>v. real_of_int v / 255) xs;
          E = (\<lambda>ys. sum_list ys / real (length ys))
      in sqrt (E (map (\<lambda>x. x * x) X) - (E X) * (E X)))"

definition broken_env :: env where
  "broken_env = \<lparr>read_csv = (\<lambda>p. Inl ParserError), path_exists = (\<lambda>p. False),
                  image_open = (\<lambda>p. Inl IOError)\<rparr>"

definition e_bad :: env where
  "e_bad = example_env [''000001_male_Asian_20'', ''bad'']
             [''data/000001_male_Asian_20/mask1.jpg'', ''data/bad/mask1.jpg'']"

definition e_other :: env where
  "e_other = example_env [''000001_male_Asian_20'', ''000001_other_Asian_20'']
               [''data/000001_male_Asian_20/mask1.jpg'', ''data/000001_other_Asian_20/mask1.jpg'']"

definition e_skip :: env where
  "e_skip = example_env [''000001_male_Asian_20'', ''bad''] [''data/000001_male_Asian_20/mask1.jpg'']"

definition digits_env :: env where
  "digits_env =
     \<lparr>read_csv = (\<lambda>p. Inr [(''path'', [CInt 123])]),
      path_exists = (\<lambda>p. p = ''data/123/mask1.jpg''),
      image_open = (\<lambda>p. if p = ''data/123/mask1.jpg'' then Inr [(255, 255, 255)] else Inl IOError)\<rparr>"

definition example_lib :: "tensor lib" where
  "example_lib =
     \<lparr>Resize = (\<lambda>size x. Inr x),
      RandomRotation = (\<lambda>degrees a x. Inr x),
      GaussianBlur = (\<lambda>k range s x. Inr x),
      ColorJitter = (\<lambda>b s h j x. Inr x),
      ToTensor = (\<lambda>x. Inr x),
      Normalize = (\<lambda>m s x. Inr x)\<rparr>"

definition zero_draws :: draws where
  "zero_draws = \<lparr>angle = 0, sigma = 1, jitter = [], noise = (\<lambda>k. 0)\<rparr>"

definition frozen_conv :: "module_kind \<Rightarrow> layer" where
  "frozen_conv k = \<lparr>kind = k, weight = Some \<lparr>requires_grad = False, data = XavierUniform\<rparr>,
                    bias = Some \<lparr>requires_grad = False, data = Zeros\<rparr>\<rparr>"

definition trainable_linear :: "module_kind \<Rightarrow> layer" where
  "trainable_linear k = \<lparr>kind = k, weight = Some \<lparr>requires_grad = True, data = Normal_0_001\<rparr>,
                         bias = Some \<lparr>requires_grad = True, data = Zeros\<rparr>\<rparr>"

definition alexnet_frozen :: model where
  "alexnet_frozen =
     \<lparr>arch = AlexNet,
      features =
        [frozen_conv (Conv2d 3 64 11 4 2), plain ReLU, plain (MaxPool2d 3 2),
         frozen_conv (Conv2d 64 192 5 1 2), plain ReLU, plain (MaxPool2d 3 2),
         frozen_conv (Conv2d 192 384 3 1 1), plain ReLU,
         frozen_conv (Conv2d 384 256 3 1 1), plain ReLU,
         frozen_conv (Conv2d 256 256 3 1 1), plain ReLU, plain (MaxPool2d 3 2)],
      avgpool = plain (AdaptiveAvgPool2d 6 6),
      classifier =
        [plain Dropout, trainable_linear (Linear (256 * 6 * 6) 4096), plain ReLU,
         plain Dropout, trainable_linear (Linear 4096 4096), plain ReLU,
         trainable_linear (Linear 4096 3)]\<rparr>"

section \<open>Attribute resolution and the heap\<close>

lemma resolve_image_paths: "resolve c ''image_paths'' = Some 0"
  by (cases c) (simp_all add: resolve_def)

lemma resolve_labels: "resolve c ''labels'' = Some 1"
  by (cases c) (simp_all add: resolve_def)

lemma resolve_gender_labels:
  "resolve MaskMultiLabelDataset ''gender_labels'' = Some 2"
  "resolve MaskBaseDataset ''gender_labels'' = None"
  by (simp_all add: resolve_def)

lemma extend_nil: "extend h [] [] [] = h"
  by (simp add: extend_def fun_eq_iff)

lemma extend_extend: "extend (extend h a b c) a' b' c' = extend h (a @ a') (b @ b') (c @ c')"
  by (simp add: extend_def fun_eq_iff)

lemma append_image_paths: "list_append self ''image_paths'' v h = (None, extend h [v] [] [])"
  by (simp add: list_append_def resolve_image_paths extend_def fun_eq_iff)

lemma append_labels: "list_append self ''labels'' v h = (None, extend h [] [v] [])"
  by (simp add: list_append_def resolve_labels extend_def fun_eq_iff)

lemma append_gender_labels:
  "klass self = MaskMultiLabelDataset \<Longrightarrow> list_append self ''gender_labels'' v h = (None, extend h [] [] [v])"
  by (simp add: list_append_def resolve_gender_labels extend_def fun_eq_iff)

section \<open>The scan loops\<close>

lemma concat_nils: "concat (map (\<lambda>x. []) xs) = []"
  by (induction xs) simp_all

lemma for_each_all_ok:
  assumes "\<And>x h. x \<in> set xs \<Longrightarrow> body x h = (None, extend h (P x) (L x) (G x))"
  shows "for_each body xs h =
     (None, extend h (concat (map P xs)) (concat (map L xs)) (concat (map G xs)))"
  using assms
proof (induction xs arbitrary: h)
  case Nil
  show ?case by (simp add: extend_nil)
next
  case (Cons x xs)
  have step: "body x h = (None, extend h (P x) (L x) (G x))" using Cons.prems by simp
  have rest: "for_each body xs (extend h (P x) (L x) (G x)) =
     (None, extend (extend h (P x) (L x) (G x)) (concat (map P xs)) (concat (map L xs)) (concat (map G xs)))"
    using Cons.IH Cons.prems by simp
  show ?case
    unfolding for_each.simps step by (simp add: rest extend_extend)
qed

lemma for_each_first_error:
  assumes ok: "\<And>x h. x \<in> set xs \<Longrightarrow> body x h = (None, extend h (P x) (L x) (G x))"
    and bad: "\<And>h. body y h = (Some err, extend h p l g)"
  shows "for_each body (xs @ y # ys) h =
     (Some err, extend h (concat (map P xs) @ p) (concat (map L xs) @ l) (concat (map G xs) @ g))"
  using ok
proof (induction xs arbitrary: h)
  case Nil
  show ?case unfolding append_Nil for_each.simps bad by simp
next
  case (Cons x xs)
  have step: "body x h = (None, extend h (P x) (L x) (G x))" using Cons.prems by simp
  have rest: "for_each body (xs @ y # ys) (extend h (P x) (L x) (G x)) =
     (Some err, extend (extend h (P x) (L x) (G x)) (concat (map P xs) @ p) (concat (map L xs) @ l) (concat (map G xs) @ g))"
    using Cons.IH Cons.prems by simp
  show ?case
    unfolding append_Cons for_each.simps step by (simp add: rest extend_extend)
qed

lemma join_strings: "os_path_join r [CStr name, CStr f] = Inr (join2 (join2 r name) f)"
  by simp

lemma join_not_string: "\<not> is_str c \<Longrightarrow> os_path_join r [c, CStr f] = Inl TypeError"
  by (cases c) simp_all

lemma file_names_Cons: "\<exists>fl fls. file_names = fl # fls"
  by (simp add: file_names_def)

lemma not_string_raises:
  assumes "\<And>fl h. body fl h = (Some TypeError, h)"
  shows "for_each body file_names h = (Some TypeError, extend h [] [] [])"
proof -
  obtain fl fls where f: "file_names = fl # fls" using file_names_Cons by blast
  show ?thesis unfolding f for_each.simps assms by (simp add: extend_nil)
qed

lemma base_body_eq: "base_body e self (CStr name) fl h =
   (None, extend h (paths_of (hit e self name fl)) (labels_of (hit e self name fl)) [])"
  by (simp add: base_body_def hit_def Let_def seq_def append_image_paths append_labels
       extend_extend extend_nil paths_of_def labels_of_def)

lemma base_inner: "for_each (base_body e self (CStr name)) file_names h =
   (None, extend h (paths_of (found e self (CStr name))) (labels_of (found e self (CStr name))) [])"
proof -
  have "for_each (base_body e self (CStr name)) file_names h =
     (None, extend h (concat (map (\<lambda>fl. paths_of (hit e self name fl)) file_names))
        (concat (map (\<lambda>fl. labels_of (hit e self name fl)) file_names))
        (concat (map (\<lambda>fl. []) file_names)))"
    by (rule for_each_all_ok) (rule base_body_eq)
  then show ?thesis
    by (simp add: found_def paths_of_def labels_of_def map_concat comp_def concat_nils)
qed

lemma base_inner_str:
  assumes "is_str c"
  shows "for_each (base_body e self c) file_names h =
   (None, extend h (paths_of (found e self c)) (labels_of (found e self c)) [])"
  using assms base_inner by (cases c) simp_all

lemma base_inner_not_string:
  assumes "\<not> is_str c"
  shows "for_each (base_body e self c) file_names h = (Some TypeError, extend h [] [] [])"
  by (rule not_string_raises) (simp add: base_body_def join_not_string[OF assms])

lemma base_outer:
  assumes "\<forall>c \<in> set profiles. is_str c"
  shows "for_each (\<lambda>profile. for_each (base_body e self profile) file_names) profiles h =
   (None, extend h (paths_of (entries e self profiles)) (labels_of (entries e self profiles)) [])"
proof -
  have "for_each (\<lambda>profile. for_each (base_body e self profile) file_names) profiles h =
     (None, extend h (concat (map (\<lambda>p. paths_of (found e self p)) profiles))
        (concat (map (\<lambda>p. labels_of (found e self p)) profiles))
        (concat (map (\<lambda>p. []) profiles)))"
    by (rule for_each_all_ok) (use assms in \<open>simp add: base_inner_str\<close>)
  then show ?thesis
    by (simp add: entries_def paths_of_def labels_of_def map_concat comp_def concat_nils)
qed

lemma base_outer_not_string:
  assumes "\<forall>c \<in> set pre. is_str c" "\<not> is_str bad"
  shows "fst (for_each (\<lambda>profile. for_each (base_body e self profile) file_names) (pre @ bad # rest) h)
           = Some TypeError"
proof -
  have "for_each (\<lambda>profile. for_each (base_body e self profile) file_names) (pre @ bad # rest) h =
     (Some TypeError, extend h (concat (map (\<lambda>p. paths_of (found e self p)) pre) @ [])
        (concat (map (\<lambda>p. labels_of (found e self p)) pre) @ [])
        (concat (map (\<lambda>p. []) pre) @ []))"
    by (rule for_each_first_error)
       (use assms in \<open>simp_all add: base_inner_str base_inner_not_string\<close>)
  then show ?thesis by simp
qed

lemma multi_body_miss:
  "hit e self name fl = [] \<Longrightarrow> multi_body e self (CStr name) fl h = (None, extend h [] [] [])"
  by (auto simp add: multi_body_def hit_def Let_def extend_nil split: if_splits)

lemma multi_body_good:
  assumes "klass self = MaskMultiLabelDataset" "gender_label_of (CStr name) = Inr g"
  shows "multi_body e self (CStr name) fl h =
     (None, extend h (paths_of (hit e self name fl)) (labels_of (hit e self name fl))
        (replicate (length (hit e self name fl)) g))"
  using assms
  by (simp add: multi_body_def hit_def Let_def seq_def append_image_paths append_labels
       gender_step_def append_gender_labels extend_extend extend_nil paths_of_def labels_of_def)

lemma multi_body_bad:
  assumes "gender_label_of (CStr name) = Inl err" "hit e self name fl = [x]"
  shows "multi_body e self (CStr name) fl h = (Some err, extend h [PStr (fst x)] [PInt (snd x)] [])"
  using assms
  by (auto simp add: multi_body_def hit_def Let_def seq_def append_image_paths append_labels
       gender_step_def extend_extend split: if_splits)

lemma hit_cases: "hit e self name fl = [] \<or> (\<exists>x. hit e self name fl = [x])"
  by (simp add: hit_def Let_def)

lemma multi_inner_good:
  assumes "klass self = MaskMultiLabelDataset" "gender_label_of (CStr name) = Inr g"
  shows "for_each (multi_body e self (CStr name)) file_names h =
     (None, extend h (paths_of (found e self (CStr name))) (labels_of (found e self (CStr name)))
        (genders_of e self (CStr name)))"
proof -
  have "for_each (multi_body e self (CStr name)) file_names h =
     (None, extend h (concat (map (\<lambda>fl. paths_of (hit e self name fl)) file_names))
        (concat (map (\<lambda>fl. labels_of (hit e self name fl)) file_names))
        (concat (map (\<lambda>fl. replicate (length (hit e self name fl)) g) file_names)))"
    by (rule for_each_all_ok) (rule multi_body_good[OF assms])
  moreover have "concat (map (\<lambda>fl. replicate (length (hit e self name fl)) g) fls)
      = replicate (length (concat (map (hit e self name) fls))) g" for fls
    by (induction fls) (simp_all add: replicate_add)
  ultimately show ?thesis
    by (simp add: found_def paths_of_def labels_of_def genders_of_def assms(2) map_concat comp_def)
qed

lemma multi_inner_empty:
  assumes "is_str c" "found e self c = []"
  shows "for_each (multi_body e self c) file_names h = (None, h)"
proof -
  from assms(1) obtain name where c: "c = CStr name" by (cases c) simp_all
  have all: "\<And>fl. fl \<in> set file_names \<Longrightarrow> hit e self name fl = []"
    using assms(2) by (auto simp: found_def c)
  have "for_each (multi_body e self (CStr name)) file_names h =
     (None, extend h (concat (map (\<lambda>fl. []) file_names)) (concat (map (\<lambda>fl. []) file_names))
        (concat (map (\<lambda>fl. []) file_names)))"
    by (rule for_each_all_ok) (simp add: multi_body_miss all)
  then show ?thesis by (simp add: extend_nil concat_nils c)
qed

lemma multi_inner_bad:
  assumes "gender_label_of c = Inl err" "found e self c \<noteq> []"
  shows "for_each (multi_body e self c) file_names h =
     (Some err, extend h [PStr (fst (hd (found e self c)))]
                        [PInt (snd (hd (found e self c)))] [])"
proof -
  from assms(2) obtain name where c: "c = CStr name" by (cases c) (simp_all add: found_def)
  from assms(2) have "\<exists>fl \<in> set file_names. hit e self name fl \<noteq> []"
    by (auto simp: found_def c)
  then obtain xs y ys where dec: "file_names = xs @ y # ys" "hit e self name y \<noteq> []"
      "\<forall>x \<in> set xs. \<not> hit e self name x \<noteq> []"
    using split_list_first_prop[of file_names "\<lambda>fl. hit e self name fl \<noteq> []"] by blast
  from dec(2) hit_cases[of e self name y] obtain x where x: "hit e self name y = [x]" by auto
  have fnd: "found e self c = x # concat (map (hit e self name) ys)"
  proof -
    have "concat (map (hit e self name) xs) = []" using dec(3) by (induction xs) simp_all
    then show ?thesis unfolding found_def dec(1) c by (simp add: x)
  qed
  have "for_each (multi_body e self (CStr name)) (xs @ y # ys) h =
     (Some err, extend h (concat (map (\<lambda>fl. []) xs) @ [PStr (fst x)])
        (concat (map (\<lambda>fl. []) xs) @ [PInt (snd x)]) (concat (map (\<lambda>fl. []) xs) @ []))"
    by (rule for_each_first_error)
       (use dec(3) in \<open>simp_all add: multi_body_miss multi_body_bad[OF assms(1)[unfolded c] x]\<close>)
  then show ?thesis by (simp add: dec(1)[symmetric] fnd[unfolded c] concat_nils c)
qed

lemma multi_inner_not_string:
  assumes "\<not> is_str c"
  shows "for_each (multi_body e self c) file_names h = (Some TypeError, extend h [] [] [])"
  by (rule not_string_raises) (simp add: multi_body_def join_not_string[OF assms])

lemma multi_inner_clean:
  assumes "klass self = MaskMultiLabelDataset" "clean e self c"
  shows "for_each (multi_body e self c) file_names h =
     (None, extend h (paths_of (found e self c)) (labels_of (found e self c))
        (genders_of e self c))"
proof -
  from assms(2) obtain name where c: "c = CStr name" by (cases c) (simp_all add: clean_def)
  show ?thesis
  proof (cases "gender_label_of c")
    case (Inr g)
    then show ?thesis unfolding c by (rule multi_inner_good[OF assms(1)])
  next
    case (Inl err)
    with assms(2) have "found e self c = []" by (simp add: clean_def)
    then show ?thesis
      using assms(2) by (simp add: multi_inner_empty clean_def genders_of_def Inl paths_of_def labels_of_def extend_nil)
  qed
qed

lemma lists_extend:
  "image_paths (extend h a b c) = image_paths h @ a"
  "labels (extend h a b c) = labels h @ b"
  "gender_labels (extend h a b c) = gender_labels h @ c"
  by (simp_all add: image_paths_def labels_def gender_labels_def extend_def)

section \<open>The profile loop of the multi-label variant\<close>

lemma length_genders_of: "clean e self p \<Longrightarrow> length (genders_of e self p) = length (found e self p)"
  by (cases "gender_label_of p") (auto simp: clean_def genders_of_def)

lemma length_genders_concat:
  "\<forall>p \<in> set ps. clean e self p \<Longrightarrow>
   length (concat (map (genders_of e self) ps)) = length (entries e self ps)"
  by (induction ps) (simp_all add: entries_def length_genders_of)

lemma multi_outer_clean:
  assumes "klass self = MaskMultiLabelDataset" "\<forall>p \<in> set profiles. clean e self p"
  shows "for_each (\<lambda>profile. for_each (multi_body e self profile) file_names) profiles h =
     (None, extend h (paths_of (entries e self profiles)) (labels_of (entries e self profiles))
        (concat (map (genders_of e self) profiles)))"
proof -
  have "for_each (\<lambda>profile. for_each (multi_body e self profile) file_names) profiles h =
     (None, extend h (concat (map (\<lambda>p. paths_of (found e self p)) profiles))
        (concat (map (\<lambda>p. labels_of (found e self p)) profiles))
        (concat (map (genders_of e self) profiles)))"
    by (rule for_each_all_ok) (use assms in \<open>simp add: multi_inner_clean\<close>)
  then show ?thesis
    by (simp add: entries_def paths_of_def labels_of_def map_concat comp_def)
qed

lemma multi_outer_fail:
  assumes "klass self = MaskMultiLabelDataset" "\<forall>p \<in> set pre. clean e self p"
    and "\<And>h. for_each (multi_body e self bad) file_names h = (Some err, extend h P L [])"
  shows "for_each (\<lambda>profile. for_each (multi_body e self profile) file_names) (pre @ bad # rest) h =
     (Some err, extend h (paths_of (entries e self pre) @ P) (labels_of (entries e self pre) @ L)
        (concat (map (genders_of e self) pre)))"
proof -
  have "for_each (\<lambda>profile. for_each (multi_body e self profile) file_names) (pre @ bad # rest) h =
     (Some err, extend h (concat (map (\<lambda>p. paths_of (found e self p)) pre) @ P)
        (concat (map (\<lambda>p. labels_of (found e self p)) pre) @ L)
        (concat (map (genders_of e self) pre) @ []))"
    by (rule for_each_first_error)
       (use assms in \<open>simp_all add: multi_inner_clean\<close>)
  then show ?thesis
    by (simp add: entries_def paths_of_def labels_of_def map_concat comp_def)
qed

lemma multi_outer_bad:
  assumes "klass self = MaskMultiLabelDataset" "\<forall>p \<in> set pre. clean e self p"
    and "gender_label_of bad = Inl err" "found e self bad \<noteq> []"
  shows "for_each (\<lambda>profile. for_each (multi_body e self profile) file_names) (pre @ bad # rest) h =
     (Some err, extend h (paths_of (entries e self pre) @ [PStr (fst (hd (found e self bad)))])
        (labels_of (entries e self pre) @ [PInt (snd (hd (found e self bad)))])
        (concat (map (genders_of e self) pre)))"
  by (rule multi_outer_fail[OF assms(1,2)]) (rule multi_inner_bad[OF assms(3,4)])

lemma multi_outer_not_string:
  assumes "klass self = MaskMultiLabelDataset" "\<forall>p \<in> set pre. clean e self p" "\<not> is_str bad"
  shows "for_each (\<lambda>profile. for_each (multi_body e self profile) file_names) (pre @ bad # rest) h =
     (Some TypeError, extend h (paths_of (entries e self pre)) (labels_of (entries e self pre))
        (concat (map (genders_of e self) pre)))"
  using multi_outer_fail[OF assms(1,2), of bad TypeError "[]" "[]" rest h]
  by (simp add: multi_inner_not_string[OF assms(3)])

lemma unclean:
  "\<not> clean e self p \<Longrightarrow>
     \<not> is_str p \<or> (found e self p \<noteq> [] \<and> (\<exists>err. gender_label_of p = Inl err))"
  by (cases "gender_label_of p") (auto simp: clean_def)

lemma first_unclean:
  assumes "\<not> (\<forall>p \<in> set profiles. clean e self p)"
  shows "\<exists>pre bad rest. profiles = pre @ bad # rest \<and> (\<forall>p \<in> set pre. clean e self p) \<and> \<not> clean e self bad"
  using assms split_list_first_prop[of profiles "\<lambda>p. \<not> clean e self p"] by auto

lemma gender_label_of_errors: "gender_label_of p = Inl err \<Longrightarrow> err = ValueError \<or> err = AttributeError"
  by (auto simp: gender_label_of_def GenderLabels_getattr_def split: cell.splits list.splits if_splits)

lemma multi_setup_unfold:
  "read_profiles e (meta_path self) = Inr profiles \<Longrightarrow>
   MaskMultiLabelDataset_setup e self h =
     for_each (\<lambda>profile. for_each (multi_body e self profile) file_names) profiles h"
  by (simp add: MaskMultiLabelDataset_setup_def)

text \<open>
  C9. When \<^verbatim>\<open>MaskMultiLabelDataset.setup\<close> has read the profile column and then raises an
  error other than the \<^verbatim>\<open>TypeError\<close> of a cell that is not a string, the error comes from
  the first profile \<open>bad\<close> that has a file on disk and whose name yields no
  gender label (\<^verbatim>\<open>ValueError\<close> from the four-field unpacking or \<^verbatim>\<open>AttributeError\<close>
  from the lookup). The path and the mask label of its first file are already the last
  elements of \<open>image_paths\<close> and \<open>labels\<close>, and \<open>gender_labels\<close> has received nothing
  for that file: lists of equal length before the call differ by one afterwards.
\<close>

theorem multi_setup_failure_not_atomic:
  assumes "klass self = MaskMultiLabelDataset"
    and "read_profiles e (meta_path self) = Inr profiles"
    and "MaskMultiLabelDataset_setup e self h = (Some err, h')"
    and "err \<noteq> TypeError"
  shows "\<exists>pre bad rest.
      profiles = pre @ bad # rest \<and> gender_label_of bad = Inl err
      \<and> (err = ValueError \<or> err = AttributeError)
      \<and> found e self bad \<noteq> []
      \<and> image_paths h' = image_paths h @ paths_of (entries e self pre) @ [PStr (fst (hd (found e self bad)))]
      \<and> labels h' = labels h @ labels_of (entries e self pre) @ [PInt (snd (hd (found e self bad)))]
      \<and> length (gender_labels h') = length (gender_labels h) + length (entries e self pre)
      \<and> (length (image_paths h) = length (gender_labels h) \<longrightarrow> length (labels h) = length (gender_labels h) \<longrightarrow>
           length (image_paths h') = length (gender_labels h') + 1 \<and>
           length (labels h') = length (gender_labels h') + 1)"
proof -
  have run: "for_each (\<lambda>profile. for_each (multi_body e self profile) file_names) profiles h = (Some err, h')"
    using assms(2,3) by (simp add: multi_setup_unfold)
  have "\<not> (\<forall>p \<in> set profiles. clean e self p)"
  proof
    assume "\<forall>p \<in> set profiles. clean e self p"
    from multi_outer_clean[OF assms(1) this, of h] run show False by simp
  qed
  from first_unclean[OF this] obtain pre bad rest where
    dec: "profiles = pre @ bad # rest" "\<forall>p \<in> set pre. clean e self p" "\<not> clean e self bad" by blast
  have "is_str bad"
  proof (rule ccontr)
    assume "\<not> is_str bad"
    from multi_outer_not_string[OF assms(1) dec(2) this, of rest h] run dec(1) assms(4)
    show False by simp
  qed
  with unclean[OF dec(3)] obtain err' where b: "found e self bad \<noteq> []" "gender_label_of bad = Inl err'" by blast
  from multi_outer_bad[OF assms(1) dec(2) b(2) b(1), of rest h] run dec(1)
  have e: "err' = err" and h': "h' = extend h (paths_of (entries e self pre) @ [PStr (fst (hd (found e self bad)))])
        (labels_of (entries e self pre) @ [PInt (snd (hd (found e self bad)))])
        (concat (map (genders_of e self) pre))" by simp_all
  have len: "length (concat (map (genders_of e self) pre)) = length (entries e self pre)"
    by (rule length_genders_concat[OF dec(2)])
  show ?thesis
    apply (rule exI[of _ pre], rule exI[of _ bad], rule exI[of _ rest])
    using dec(1) b e gender_label_of_errors[of bad err'] len
    by (simp add: h' lists_extend paths_of_def labels_of_def)
qed

section \<open>Evaluation on concrete inputs\<close>

lemma read_example: "read_profiles (example_env ps fs) m = Inr (map CStr ps)"
  by (simp add: read_profiles_def example_env_def)

lemma gender_example: "gender_label_of (CStr ''000001_male_Asian_20'') = Inr (PInt 0)"
  by (simp add: gender_label_of_def split_def GenderLabels_getattr_def)

lemma gender_mro: "gender_label_of (CStr ''000001_mro_Asian_20'') = Inr (PBuiltin ''mro'')"
  by (simp add: gender_label_of_def split_def GenderLabels_getattr_def inherited_class_attrs_def)

lemma split_bad: "split ''bad'' CHR ''_'' = [''bad'']"
  by (simp add: split_def)

lemma no_sep_in_fields:
  "sep \<notin> set acc \<Longrightarrow> f \<in> set (split_acc sep acc s) \<Longrightarrow> sep \<notin> set f"
proof (induction sep acc s rule: split_acc.induct)
  case (1 sep acc)
  then show ?case by auto
next
  case (2 sep acc c cs)
  show ?case
  proof (cases "c = sep")
    case True
    with 2 show ?thesis by auto
  next
    case False
    with 2 show ?thesis by auto
  qed
qed

lemma underscore_free_attr:
  "name \<in> set inherited_class_attrs \<Longrightarrow> CHR ''_'' \<notin> set name \<Longrightarrow> name = ''mro''"
  by (auto simp: inherited_class_attrs_def)

lemma init_unfold:
  "init e c r m p mu sd h =
     (let self = \<lparr>klass = c, img_root = r, meta_path = m, phase = p,
                  mean = Some (Vec [Some 0.5366, Some 0.5323, Some 0.5183]),
                  std = Some (Vec [Some 0.2456, Some 0.2517, Some 0.2605])\<rparr>
      in case self_setup e self h of
           (Some err, h') \<Rightarrow> (Inl err, h')
         | (None, h') \<Rightarrow> (Inr self, h'))"
  by (simp add: init_def calc_statistics_def Let_def split: prod.splits option.splits)

lemma entries_e0:
  "img_root self = ''data'' \<Longrightarrow> entries e0 self [CStr ''000001_male_Asian_20''] = [(''data/000001_male_Asian_20/mask1.jpg'', 0)]"
  by (simp add: entries_def e0_def found_def hit_def file_names_def example_env_def join2_def
      is_image_file_def IMG_EXTENSIONS_def suffix_to_prefix Labels_mask_def)

lemma base_setup_e0:
  assumes r: "img_root self = ''data''" and k: "klass self = MaskBaseDataset"
  shows "self_setup e0 self h = (None, extend h [PStr ''data/000001_male_Asian_20/mask1.jpg''] [PInt 0] [])"
proof -
  have rd: "read_profiles e0 (meta_path self) = Inr [CStr ''000001_male_Asian_20'']"
    by (simp add: e0_def read_example)
  have st: "\<forall>c \<in> set [CStr ''000001_male_Asian_20'']. is_str c" by simp
  have "self_setup e0 self h =
      for_each (\<lambda>profile. for_each (base_body e0 self profile) file_names) [CStr ''000001_male_Asian_20''] h"
    by (simp add: self_setup_def k MaskBaseDataset_setup_def rd del: for_each.simps)
  also have "\<dots> = (None, extend h (paths_of (entries e0 self [CStr ''000001_male_Asian_20'']))
        (labels_of (entries e0 self [CStr ''000001_male_Asian_20''])) [])"
    by (rule base_outer[OF st])
  also have "\<dots> = (None, extend h [PStr ''data/000001_male_Asian_20/mask1.jpg''] [PInt 0] [])"
    by (simp add: entries_e0[OF r] paths_of_def labels_of_def)
  finally show ?thesis .
qed

lemma clean_e0: "clean e0 self (CStr ''000001_male_Asian_20'')"
  by (simp add: clean_def gender_example)

lemma genders_e0: "img_root self = ''data'' \<Longrightarrow> genders_of e0 self (CStr ''000001_male_Asian_20'') = [PInt 0]"
  using entries_e0[of self] by (simp add: genders_of_def gender_example entries_def)

lemma multi_setup_e0:
  assumes r: "img_root self = ''data''" and k: "klass self = MaskMultiLabelDataset"
  shows "self_setup e0 self h = (None, extend h [PStr ''data/000001_male_Asian_20/mask1.jpg''] [PInt 0] [PInt 0])"
proof -
  have rd: "read_profiles e0 (meta_path self) = Inr [CStr ''000001_male_Asian_20'']"
    by (simp add: e0_def read_example)
  have cl: "\<forall>p \<in> set [CStr ''000001_male_Asian_20'']. clean e0 self p"
    by (simp add: clean_e0)
  have "self_setup e0 self h = MaskMultiLabelDataset_setup e0 self h"
    by (simp add: self_setup_def k)
  also have "\<dots> = for_each (\<lambda>profile. for_each (multi_body e0 self profile) file_names) [CStr ''000001_male_Asian_20''] h"
    by (rule multi_setup_unfold[OF rd])
  also have "\<dots> = (None, extend h (paths_of (entries e0 self [CStr ''000001_male_Asian_20'']))
        (labels_of (entries e0 self [CStr ''000001_male_Asian_20'']))
        (concat (map (genders_of e0 self) [CStr ''000001_male_Asian_20''])))"
    by (rule multi_outer_clean[OF k cl])
  also have "\<dots> = (None, extend h [PStr ''data/000001_male_Asian_20/mask1.jpg''] [PInt 0] [PInt 0])"
    by (simp add: entries_e0[OF r] genders_e0[OF r] paths_of_def labels_of_def)
  finally show ?thesis .
qed

lemma lists_module_heap:
  "image_paths module_heap = []" "labels module_heap = []" "gender_labels module_heap = []"
  by (simp_all add: image_paths_def labels_def gender_labels_def module_heap_def)

lemma after_base_eq: "after_base = extend module_heap [PStr ''data/000001_male_Asian_20/mask1.jpg''] [PInt 0] []"
  by (simp add: after_base_def init_unfold base_setup_e0)

lemma after_multi_eq: "after_multi = extend module_heap [PStr ''data/000001_male_Asian_20/mask1.jpg'', PStr ''data/000001_male_Asian_20/mask1.jpg''] [PInt 0, PInt 0] [PInt 0]"
  by (simp add: after_multi_def init_unfold multi_setup_e0 after_base_eq extend_extend)

text \<open>
  C2. The alignment of the three sequences after \<^verbatim>\<open>setup()\<close> does not hold in the code when a
  base dataset was constructed before a multi-label one in the same process. Both
  constructions succeed on a table with one profile and one file; afterwards
  \<open>image_paths\<close> and \<open>labels\<close> hold two entries and \<open>gender_labels\<close> holds one, so
  \<open>gender_labels[0]\<close> describes \<open>image_paths[1]\<close> and index 1 has no gender label.
\<close>

theorem base_then_multi_misaligned:
  "image_paths after_multi = [PStr ''data/000001_male_Asian_20/mask1.jpg'', PStr ''data/000001_male_Asian_20/mask1.jpg'']
   \<and> labels after_multi = [PInt 0, PInt 0]
   \<and> gender_labels after_multi = [PInt 0]
   \<and> isl (fst (init e0 MaskBaseDataset ''data'' ''meta.csv'' ''train'' None None module_heap)) = False
   \<and> isl (fst (init e0 MaskMultiLabelDataset ''data'' ''meta.csv'' ''train'' None None after_base)) = False"
  by (simp add: after_multi_eq lists_extend lists_module_heap init_unfold base_setup_e0 multi_setup_e0)

lemma upt3: "[0..<3] = [0, 1, 2]"
  by (simp add: upt_rec)

lemma calc_e0:
  "calc_statistics e0 (example_self MaskBaseDataset) after_base =
     Inr ((example_self MaskBaseDataset)
           \<lparr>mean := Some (Vec [Some 1, Some 1, Some 1]),
            std := Some (Vec [Some (sqrt 65024 / 255), Some (sqrt 65024 / 255), Some (sqrt 65024 / 255)])\<rparr>)"
  by (simp add: calc_statistics_def example_self_def get_list_def resolve_image_paths after_base_eq extend_def
       module_heap_def open_path_def e0_def example_env_def image_mean_def image_sq_mean_def channels_def
       np_mean_def statistics_of_def np_mean_axis0_def upt3 fl_div_def fl_sq_def fl_sub_def fl_pow_half_def)

section \<open>Error policy of the multi-label scan\<close>

lemma short_split_is_ValueError:
  "length (split p CHR ''_'') \<noteq> 4 \<Longrightarrow> gender_label_of (CStr p) = Inl ValueError"
  by (auto simp: gender_label_of_def split: list.splits)

lemma unknown_gender_is_AttributeError:
  assumes "split p CHR ''_'' = [ident, gender, race, age]"
    and "gender \<noteq> ''male''" "gender \<noteq> ''female''" "gender \<noteq> ''mro''"
  shows "gender_label_of (CStr p) = Inl AttributeError"
proof -
  have "gender \<in> set (split_acc CHR ''_'' [] p)" using assms(1) by (simp add: split_def)
  then have "CHR ''_'' \<notin> set gender" by (rule no_sep_in_fields[rotated]) simp
  then have "gender \<notin> set inherited_class_attrs" using underscore_free_attr assms(4) by blast
  then show ?thesis using assms by (simp add: gender_label_of_def GenderLabels_getattr_def)
qed

lemma read_csv_error:
  "read_csv e (meta_path self) = Inl err \<Longrightarrow> MaskMultiLabelDataset_setup e self h = (Some err, h)"
  by (simp add: MaskMultiLabelDataset_setup_def read_profiles_def)

lemma multi_setup_first_bad:
  assumes "klass self = MaskMultiLabelDataset"
    and "read_profiles e (meta_path self) = Inr (pre @ bad # rest)"
    and "\<forall>p \<in> set pre. clean e self p" "found e self bad \<noteq> []" "gender_label_of bad = Inl err"
  shows "fst (MaskMultiLabelDataset_setup e self h) = Some err"
  by (simp add: multi_setup_unfold[OF assms(2)] multi_outer_bad[OF assms(1,3,5,4)])

lemma for_each_append:
  "for_each body (xs @ ys) h =
     (case for_each body xs h of (Some err, h') \<Rightarrow> (Some err, h') | (None, h') \<Rightarrow> for_each body ys h')"
proof (induction xs arbitrary: h)
  case Nil
  show ?case by simp
next
  case (Cons x xs)
  show ?case
  proof (cases "body x h")
    case (Pair r h1)
    show ?thesis
    proof (cases r)
      case None
      with Pair Cons.IH[of h1] show ?thesis unfolding append_Cons for_each.simps by simp
    next
      case (Some err)
      with Pair show ?thesis unfolding append_Cons for_each.simps by simp
    qed
  qed
qed

lemma multi_body_same_disk:
  assumes "path_exists e2 = path_exists e"
  shows "multi_body e2 = multi_body e"
  by (intro ext) (simp add: multi_body_def assms split: sum.splits)

lemma multi_setup_skips:
  assumes "read_profiles e (meta_path self) = Inr (pre @ CStr bad # rest)"
    and "read_profiles e2 (meta_path self) = Inr (pre @ rest)"
    and "path_exists e2 = path_exists e" "found e self (CStr bad) = []"
  shows "MaskMultiLabelDataset_setup e self h = MaskMultiLabelDataset_setup e2 self h"
proof -
  let ?scan = "\<lambda>profile. for_each (multi_body e self profile) file_names"
  have step: "for_each ?scan (CStr bad # rest) k = for_each ?scan rest k" for k
    unfolding for_each.simps by (simp add: multi_inner_empty[OF _ assms(4)])
  have "for_each ?scan (pre @ CStr bad # rest) h = for_each ?scan (pre @ rest) h"
    unfolding for_each_append[of ?scan pre] step ..
  then show ?thesis
    by (simp add: multi_setup_unfold[OF assms(1)] multi_setup_unfold[OF assms(2)]
         multi_body_same_disk[OF assms(3)])
qed

text \<open>
  C7, as amended. A metadata table that cannot be read makes \<^verbatim>\<open>setup()\<close> of the
  multi-label variant raise the error of the reader and leaves the lists untouched. A
  profile that pandas hands over as a string and whose name does not split into exactly
  four fields makes it raise \<^verbatim>\<open>ValueError\<close> when at least one of its canonical files
  exists on disk and every profile before it was scanned without error. A string profile
  none of whose canonical files exists is skipped: the call does what it does on the table
  without that row.
\<close>

theorem multi_setup_error_policy:
  assumes "klass self = MaskMultiLabelDataset"
  shows "(read_csv e1 (meta_path self) = Inl err \<longrightarrow> MaskMultiLabelDataset_setup e1 self h = (Some err, h))
    \<and> (read_profiles e (meta_path self) = Inr (pre @ CStr bad # rest)
        \<and> (\<forall>p \<in> set pre. clean e self p)
        \<and> found e self (CStr bad) \<noteq> []
        \<and> length (split bad CHR ''_'') \<noteq> 4
       \<longrightarrow> fst (MaskMultiLabelDataset_setup e self h) = Some ValueError)
    \<and> (read_profiles e3 (meta_path self) = Inr (pre3 @ CStr bad3 # rest3)
        \<and> read_profiles e2 (meta_path self) = Inr (pre3 @ rest3)
        \<and> path_exists e2 = path_exists e3
        \<and> found e3 self (CStr bad3) = []
       \<longrightarrow> MaskMultiLabelDataset_setup e3 self h = MaskMultiLabelDataset_setup e2 self h)"
  using assms read_csv_error multi_setup_first_bad short_split_is_ValueError multi_setup_skips
  by blast

text \<open>
  C10, as amended. \<^verbatim>\<open>male\<close> maps to 0 and \<^verbatim>\<open>female\<close> to 1. A profile whose name
  (a string, as any name of four fields is) splits into four fields and whose gender
  field is none of \<^verbatim>\<open>male\<close>, \<^verbatim>\<open>female\<close> and \<^verbatim>\<open>mro\<close> makes \<^verbatim>\<open>setup()\<close> of the multi-label variant raise \<^verbatim>\<open>AttributeError\<close>,
  not \<^verbatim>\<open>ValueError\<close>, when at least one of its canonical files exists on disk and every
  profile before it was scanned without error.
\<close>

theorem gender_lookup_error:
  assumes "klass self = MaskMultiLabelDataset"
  shows "GenderLabels_getattr ''male'' = Inr (PInt 0) \<and> GenderLabels_getattr ''female'' = Inr (PInt 1)
    \<and> (read_profiles e (meta_path self) = Inr (pre @ CStr bad # rest)
        \<and> (\<forall>p \<in> set pre. clean e self p)
        \<and> found e self (CStr bad) \<noteq> []
        \<and> split bad CHR ''_'' = [ident, gender, race, age]
        \<and> gender \<noteq> ''male'' \<and> gender \<noteq> ''female'' \<and> gender \<noteq> ''mro''
       \<longrightarrow> fst (MaskMultiLabelDataset_setup e self h) = Some AttributeError)"
proof -
  have "GenderLabels_getattr ''male'' = Inr (PInt 0)" "GenderLabels_getattr ''female'' = Inr (PInt 1)"
    by (simp_all add: GenderLabels_getattr_def)
  then show ?thesis
    using assms multi_setup_first_bad unknown_gender_is_AttributeError by blast
qed

lemma found_absent: "found (example_env ps []) self p = []"
  by (cases p) (simp_all add: found_def hit_def example_env_def concat_nils)

lemma setup_no_files:
  assumes "klass self = MaskMultiLabelDataset"
  shows "MaskMultiLabelDataset_setup (example_env ps []) self h = (None, h)"
proof -
  have cl: "\<forall>p \<in> set (map CStr ps). clean (example_env ps []) self p"
    by (auto simp add: clean_def found_absent)
  have en: "entries (example_env ps []) self (map CStr ps) = []"
    by (simp add: entries_def found_absent concat_nils comp_def)
  have gn: "concat (map (genders_of (example_env ps []) self) (map CStr ps)) = []"
    using length_genders_concat[OF cl] en by simp
  show ?thesis
    unfolding multi_setup_unfold[OF read_example] multi_outer_clean[OF assms cl] en gn
    by (simp add: paths_of_def labels_of_def extend_nil)
qed

lemma setup_digits:
  "MaskMultiLabelDataset_setup digits_env (example_self MaskMultiLabelDataset) module_heap
     = (Some TypeError, module_heap)"
proof -
  let ?s = "example_self MaskMultiLabelDataset"
  have k: "klass ?s = MaskMultiLabelDataset" by (simp add: example_self_def)
  have rd: "read_profiles digits_env (meta_path ?s) = Inr ([] @ CInt 123 # [])"
    by (simp add: read_profiles_def digits_env_def)
  have "MaskMultiLabelDataset_setup digits_env ?s module_heap =
      for_each (\<lambda>profile. for_each (multi_body digits_env ?s profile) file_names)
        ([] @ CInt 123 # []) module_heap"
    by (rule multi_setup_unfold[OF rd])
  also have "\<dots> = (Some TypeError, extend module_heap (paths_of (entries digits_env ?s []))
        (labels_of (entries digits_env ?s [])) (concat (map (genders_of digits_env ?s) [])))"
    by (rule multi_outer_not_string[OF k]) simp_all
  also have "\<dots> = (Some TypeError, module_heap)"
    by (simp add: entries_def paths_of_def labels_of_def extend_nil)
  finally show ?thesis .
qed

text \<open>
  The claim as first stated fails twice. The profile \<open>bad\<close> has one field, none of its
  files exists, and the call returns normally, the lists unchanged. The row \<open>123\<close>,
  which has one field too and which pandas hands over as an integer, raises
  \<^verbatim>\<open>TypeError\<close> in \<^verbatim>\<open>os.path.join\<close>, although \<open>data/123/mask1.jpg\<close> exists.
\<close>

theorem malformed_profile_without_files_is_skipped:
  "length (split ''bad'' CHR ''_'') \<noteq> 4
   \<and> MaskMultiLabelDataset_setup (example_env [''bad''] []) (example_self MaskMultiLabelDataset) module_heap
       = (None, module_heap)
   \<and> read_csv digits_env ''meta.csv'' = Inr [(''path'', [CInt 123])]
   \<and> path_exists digits_env ''data/123/mask1.jpg''
   \<and> MaskMultiLabelDataset_setup digits_env (example_self MaskMultiLabelDataset) module_heap
       = (Some TypeError, module_heap)"
proof -
  have a: "read_csv digits_env ''meta.csv'' = Inr [(''path'', [CInt 123])]"
          "path_exists digits_env ''data/123/mask1.jpg''"
    by (simp_all add: digits_env_def)
  have b: "MaskMultiLabelDataset_setup (example_env [''bad''] []) (example_self MaskMultiLabelDataset) module_heap
       = (None, module_heap)"
    by (rule setup_no_files) (simp add: example_self_def)
  from a b setup_digits show ?thesis by (simp add: split_bad)
qed

lemmas eval_found = found_def hit_def file_names_def example_env_def example_self_def
  join2_def is_image_file_def IMG_EXTENSIONS_def suffix_to_prefix Labels_mask_def

lemma found_bad:
  "found e_bad (example_self c) (CStr ''000001_male_Asian_20'') = [(''data/000001_male_Asian_20/mask1.jpg'', 0)]"
  "found e_bad (example_self c) (CStr ''bad'') = [(''data/bad/mask1.jpg'', 0)]"
  by (simp_all add: e_bad_def eval_found)

lemma found_other:
  "found e_other (example_self c) (CStr ''000001_male_Asian_20'') = [(''data/000001_male_Asian_20/mask1.jpg'', 0)]"
  "found e_other (example_self c) (CStr ''000001_other_Asian_20'') = [(''data/000001_other_Asian_20/mask1.jpg'', 0)]"
  by (simp_all add: e_other_def eval_found)

lemma found_skip: "found e_skip (example_self c) (CStr ''bad'') = []"
  by (simp add: e_skip_def eval_found)

lemma found_mro:
  "found (example_env ps [''data/000001_mro_Asian_20/mask1.jpg'']) (example_self c) (CStr ''000001_mro_Asian_20'')
     = [(''data/000001_mro_Asian_20/mask1.jpg'', 0)]"
  by (simp add: eval_found)

lemma clean_male: "clean e (example_self c) (CStr ''000001_male_Asian_20'')"
  by (simp add: clean_def gender_example)

lemma read_bad: "read_profiles e_bad m = Inr ([CStr ''000001_male_Asian_20''] @ CStr ''bad'' # [])"
  by (simp add: e_bad_def read_example)

lemma read_other:
  "read_profiles e_other m = Inr ([CStr ''000001_male_Asian_20''] @ CStr ''000001_other_Asian_20'' # [])"
  by (simp add: e_other_def read_example)

lemma read_skip: "read_profiles e_skip m = Inr ([CStr ''000001_male_Asian_20''] @ CStr ''bad'' # [])"
  by (simp add: e_skip_def read_example)

lemma read_e0: "read_profiles e0 m = Inr ([CStr ''000001_male_Asian_20''] @ [])"
  by (simp add: e0_def read_example)

lemma same_disk: "path_exists e0 = path_exists e_skip"
  by (simp add: e0_def e_skip_def example_env_def)

lemma split_other: "split ''000001_other_Asian_20'' CHR ''_'' = [''000001'', ''other'', ''Asian'', ''20'']"
  by (simp add: split_def)

lemma split_mro: "split ''000001_mro_Asian_20'' CHR ''_'' = [''000001'', ''mro'', ''Asian'', ''20'']"
  by (simp add: split_def)

lemma klass_example: "klass (example_self c) = c" "meta_path (example_self c) = ''meta.csv''"
  by (simp_all add: example_self_def)

text \<open>
  The theorem above on a reader that fails with a parse error, on a table with a
  well-formed profile followed by the profile \<open>bad\<close>, each with its \<open>mask1.jpg\<close>
  on disk, and on the same table with no file for \<open>bad\<close>, where the call does what it
  does on the table of the well-formed profile alone.
\<close>

theorem multi_setup_error_policy_witness:
  "klass (example_self MaskMultiLabelDataset) = MaskMultiLabelDataset
   \<and> read_csv broken_env (meta_path (example_self MaskMultiLabelDataset)) = Inl ParserError
   \<and> MaskMultiLabelDataset_setup broken_env (example_self MaskMultiLabelDataset) module_heap
        = (Some ParserError, module_heap)
   \<and> read_profiles e_bad (meta_path (example_self MaskMultiLabelDataset))
        = Inr ([CStr ''000001_male_Asian_20''] @ CStr ''bad'' # [])
   \<and> clean e_bad (example_self MaskMultiLabelDataset) (CStr ''000001_male_Asian_20'')
   \<and> found e_bad (example_self MaskMultiLabelDataset) (CStr ''bad'') \<noteq> []
   \<and> length (split ''bad'' CHR ''_'') \<noteq> 4
   \<and> fst (MaskMultiLabelDataset_setup e_bad (example_self MaskMultiLabelDataset) module_heap)
        = Some ValueError
   \<and> read_profiles e_skip (meta_path (example_self MaskMultiLabelDataset))
        = Inr ([CStr ''000001_male_Asian_20''] @ CStr ''bad'' # [])
   \<and> read_profiles e0 (meta_path (example_self MaskMultiLabelDataset))
        = Inr ([CStr ''000001_male_Asian_20''] @ [])
   \<and> path_exists e0 = path_exists e_skip
   \<and> found e_skip (example_self MaskMultiLabelDataset) (CStr ''bad'') = []
   \<and> MaskMultiLabelDataset_setup e_skip (example_self MaskMultiLabelDataset) module_heap
        = MaskMultiLabelDataset_setup e0 (example_self MaskMultiLabelDataset) module_heap"
proof -
  let ?s = "example_self MaskMultiLabelDataset"
  have k: "klass ?s = MaskMultiLabelDataset" by (simp add: klass_example)
  have p: "read_csv broken_env (meta_path ?s) = Inl ParserError" by (simp add: broken_env_def)
  have c: "\<forall>p \<in> set [CStr ''000001_male_Asian_20'']. clean e_bad ?s p" by (simp add: clean_male)
  have f: "found e_bad ?s (CStr ''bad'') \<noteq> []" by (simp add: found_bad)
  have l: "length (split ''bad'' CHR ''_'') \<noteq> 4" by (simp add: split_bad)
  note pol = multi_setup_error_policy[OF k, of broken_env ParserError module_heap
          e_bad "[CStr ''000001_male_Asian_20'']" "''bad''" "[]"
          e_skip "[CStr ''000001_male_Asian_20'']" "''bad''" "[]" e0]
  from pol p have one: "MaskMultiLabelDataset_setup broken_env ?s module_heap = (Some ParserError, module_heap)"
    by blast
  from pol read_bad[of "meta_path ?s"] c f l
  have two: "fst (MaskMultiLabelDataset_setup e_bad ?s module_heap) = Some ValueError"
    by blast
  from pol read_skip[of "meta_path ?s"] read_e0[of "meta_path ?s"] same_disk found_skip[of MaskMultiLabelDataset]
  have three: "MaskMultiLabelDataset_setup e_skip ?s module_heap = MaskMultiLabelDataset_setup e0 ?s module_heap"
    by blast
  from k p one read_bad[of "meta_path ?s"] clean_male[of e_bad MaskMultiLabelDataset] f l two
       read_skip[of "meta_path ?s"] read_e0[of "meta_path ?s"] same_disk found_skip[of MaskMultiLabelDataset] three
  show ?thesis by blast
qed

text \<open>
  The theorem above on a table with a well-formed profile followed by the profile
  \<open>000001_other_Asian_20\<close>, each with its \<open>mask1.jpg\<close> on disk.
\<close>

theorem gender_lookup_error_witness:
  "klass (example_self MaskMultiLabelDataset) = MaskMultiLabelDataset
   \<and> read_profiles e_other (meta_path (example_self MaskMultiLabelDataset))
        = Inr ([CStr ''000001_male_Asian_20''] @ CStr ''000001_other_Asian_20'' # [])
   \<and> clean e_other (example_self MaskMultiLabelDataset) (CStr ''000001_male_Asian_20'')
   \<and> found e_other (example_self MaskMultiLabelDataset) (CStr ''000001_other_Asian_20'') \<noteq> []
   \<and> split ''000001_other_Asian_20'' CHR ''_'' = [''000001'', ''other'', ''Asian'', ''20'']
   \<and> fst (MaskMultiLabelDataset_setup e_other (example_self MaskMultiLabelDataset) module_heap)
        = Some AttributeError"
  using gender_lookup_error[of "example_self MaskMultiLabelDataset" e_other "[CStr ''000001_male_Asian_20'']"
          "''000001_other_Asian_20''" "[]" "''000001''" "''other''" "''Asian''" "''20''" module_heap]
  by (simp add: klass_example read_other[simplified] found_other split_other clean_male)

lemma setup_mro:
  "MaskMultiLabelDataset_setup (example_env [''000001_mro_Asian_20''] [''data/000001_mro_Asian_20/mask1.jpg''])
     (example_self MaskMultiLabelDataset) module_heap
   = (None, extend module_heap [PStr ''data/000001_mro_Asian_20/mask1.jpg''] [PInt 0] [PBuiltin ''mro''])"
proof -
  let ?e = "example_env [''000001_mro_Asian_20''] [''data/000001_mro_Asian_20/mask1.jpg'']"
  let ?s = "example_self MaskMultiLabelDataset"
  have k: "klass ?s = MaskMultiLabelDataset" by (simp add: klass_example)
  have cl: "\<forall>p \<in> set [CStr ''000001_mro_Asian_20'']. clean ?e ?s p" by (simp add: clean_def gender_mro)
  have rd: "read_profiles ?e (meta_path ?s) = Inr [CStr ''000001_mro_Asian_20'']"
    by (simp add: read_example)
  have "MaskMultiLabelDataset_setup ?e ?s module_heap =
      for_each (\<lambda>profile. for_each (multi_body ?e ?s profile) file_names) [CStr ''000001_mro_Asian_20''] module_heap"
    by (rule multi_setup_unfold[OF rd])
  also have "\<dots> = (None, extend module_heap (paths_of (entries ?e ?s [CStr ''000001_mro_Asian_20'']))
        (labels_of (entries ?e ?s [CStr ''000001_mro_Asian_20'']))
        (concat (map (genders_of ?e ?s) [CStr ''000001_mro_Asian_20''])))"
    by (rule multi_outer_clean[OF k cl])
  also have "\<dots> = (None, extend module_heap [PStr ''data/000001_mro_Asian_20/mask1.jpg''] [PInt 0] [PBuiltin ''mro''])"
    by (simp add: entries_def genders_of_def found_mro gender_mro paths_of_def labels_of_def)
  finally show ?thesis .
qed

text \<open>
  The claim as first stated fails twice. The profile \<open>000001_other_Asian_20\<close> without any
  file on disk is skipped and the call returns normally. The profile
  \<open>000001_mro_Asian_20\<close> with its \<open>mask1.jpg\<close> on disk raises nothing either: the class
  object answers to \<^verbatim>\<open>mro\<close>, and the built-in method is appended as the gender label.
\<close>

theorem gender_lookup_counterexample:
  "split ''000001_other_Asian_20'' CHR ''_'' = [''000001'', ''other'', ''Asian'', ''20'']
   \<and> MaskMultiLabelDataset_setup (example_env [''000001_other_Asian_20''] [])
        (example_self MaskMultiLabelDataset) module_heap = (None, module_heap)
   \<and> split ''000001_mro_Asian_20'' CHR ''_'' = [''000001'', ''mro'', ''Asian'', ''20'']
   \<and> fst (MaskMultiLabelDataset_setup (example_env [''000001_mro_Asian_20''] [''data/000001_mro_Asian_20/mask1.jpg''])
        (example_self MaskMultiLabelDataset) module_heap) = None
   \<and> gender_labels (snd (MaskMultiLabelDataset_setup (example_env [''000001_mro_Asian_20''] [''data/000001_mro_Asian_20/mask1.jpg''])
        (example_self MaskMultiLabelDataset) module_heap)) = [PBuiltin ''mro'']"
  by (simp add: split_other split_mro setup_no_files klass_example setup_mro lists_extend lists_module_heap)

lemma setup_bad:
  "MaskMultiLabelDataset_setup e_bad (example_self MaskMultiLabelDataset) module_heap
   = (Some ValueError,
      extend module_heap [PStr ''data/000001_male_Asian_20/mask1.jpg'', PStr ''data/bad/mask1.jpg'']
        [PInt 0, PInt 0] [PInt 0])"
proof -
  let ?s = "example_self MaskMultiLabelDataset"
  have k: "klass ?s = MaskMultiLabelDataset" by (simp add: klass_example)
  have g: "gender_label_of (CStr ''bad'') = Inl ValueError" by (simp add: short_split_is_ValueError split_bad)
  have f: "found e_bad ?s (CStr ''bad'') \<noteq> []" by (simp add: found_bad)
  have c: "\<forall>p \<in> set [CStr ''000001_male_Asian_20'']. clean e_bad ?s p" by (simp add: clean_male)
  have "MaskMultiLabelDataset_setup e_bad ?s module_heap =
      for_each (\<lambda>profile. for_each (multi_body e_bad ?s profile) file_names)
        ([CStr ''000001_male_Asian_20''] @ CStr ''bad'' # []) module_heap"
    by (rule multi_setup_unfold[OF read_bad])
  also have "\<dots> = (Some ValueError,
        extend module_heap (paths_of (entries e_bad ?s [CStr ''000001_male_Asian_20'']) @ [PStr (fst (hd (found e_bad ?s (CStr ''bad''))))])
        (labels_of (entries e_bad ?s [CStr ''000001_male_Asian_20'']) @ [PInt (snd (hd (found e_bad ?s (CStr ''bad''))))])
        (concat (map (genders_of e_bad ?s) [CStr ''000001_male_Asian_20''])))"
    by (rule multi_outer_bad[OF k c g f])
  also have "\<dots> = (Some ValueError,
      extend module_heap [PStr ''data/000001_male_Asian_20/mask1.jpg'', PStr ''data/bad/mask1.jpg'']
        [PInt 0, PInt 0] [PInt 0])"
    by (simp add: entries_def genders_of_def gender_example found_bad paths_of_def labels_of_def)
  finally show ?thesis .
qed

text \<open>
  The theorem above on a table with a well-formed profile followed by the profile
  \<open>bad\<close>, each with its \<open>mask1.jpg\<close> on disk: the call raises \<^verbatim>\<open>ValueError\<close>
  and leaves two paths, two labels and one gender label.
\<close>

theorem multi_setup_failure_not_atomic_witness:
  "klass (example_self MaskMultiLabelDataset) = MaskMultiLabelDataset
   \<and> read_profiles e_bad (meta_path (example_self MaskMultiLabelDataset))
        = Inr [CStr ''000001_male_Asian_20'', CStr ''bad'']
   \<and> MaskMultiLabelDataset_setup e_bad (example_self MaskMultiLabelDataset) module_heap
      = (Some ValueError,
         extend module_heap [PStr ''data/000001_male_Asian_20/mask1.jpg'', PStr ''data/bad/mask1.jpg'']
           [PInt 0, PInt 0] [PInt 0])
   \<and> ValueError \<noteq> TypeError
   \<and> length (image_paths module_heap) = length (gender_labels module_heap)
   \<and> length (labels module_heap) = length (gender_labels module_heap)
   \<and> length (image_paths (extend module_heap [PStr ''data/000001_male_Asian_20/mask1.jpg'', PStr ''data/bad/mask1.jpg'']
           [PInt 0, PInt 0] [PInt 0]))
        = length (gender_labels (extend module_heap [PStr ''data/000001_male_Asian_20/mask1.jpg'', PStr ''data/bad/mask1.jpg'']
           [PInt 0, PInt 0] [PInt 0])) + 1
   \<and> length (labels (extend module_heap [PStr ''data/000001_male_Asian_20/mask1.jpg'', PStr ''data/bad/mask1.jpg'']
           [PInt 0, PInt 0] [PInt 0]))
        = length (gender_labels (extend module_heap [PStr ''data/000001_male_Asian_20/mask1.jpg'', PStr ''data/bad/mask1.jpg'']
           [PInt 0, PInt 0] [PInt 0])) + 1"
proof -
  let ?h = "extend module_heap [PStr ''data/000001_male_Asian_20/mask1.jpg'', PStr ''data/bad/mask1.jpg'']
           [PInt 0, PInt 0] [PInt 0]"
  have k: "klass (example_self MaskMultiLabelDataset) = MaskMultiLabelDataset" by (simp add: klass_example)
  have rd: "read_profiles e_bad (meta_path (example_self MaskMultiLabelDataset))
        = Inr [CStr ''000001_male_Asian_20'', CStr ''bad'']" using read_bad by simp
  have ne: "ValueError \<noteq> TypeError" by simp
  have eq: "length (image_paths module_heap) = length (gender_labels module_heap)"
       "length (labels module_heap) = length (gender_labels module_heap)"
    by (simp_all add: lists_module_heap)
  from multi_setup_failure_not_atomic[OF k rd setup_bad ne] eq
  have "length (image_paths ?h) = length (gender_labels ?h) + 1
      \<and> length (labels ?h) = length (gender_labels ?h) + 1"
    by blast
  with k rd setup_bad ne eq show ?thesis by blast
qed

section \<open>Construction and the shared accumulators\<close>

lemma init_success:
  assumes "init e c r m p mu sd h = (Inr d, h')"
  shows "klass d = c \<and> img_root d = r \<and> meta_path d = m \<and> self_setup e d h = (None, h')
     \<and> mean d = Some (Vec [Some 0.5366, Some 0.5323, Some 0.5183])
     \<and> std d = Some (Vec [Some 0.2456, Some 0.2517, Some 0.2605])"
  using assms by (auto simp: init_unfold Let_def split: prod.splits option.splits)

lemma multi_success_clean:
  assumes "klass self = MaskMultiLabelDataset"
    and "for_each (\<lambda>profile. for_each (multi_body e self profile) file_names) profiles h = (None, h')"
  shows "\<forall>p \<in> set profiles. clean e self p"
proof (rule ccontr)
  assume "\<not> (\<forall>p \<in> set profiles. clean e self p)"
  from first_unclean[OF this] obtain pre bad rest where
    dec: "profiles = pre @ bad # rest" "\<forall>p \<in> set pre. clean e self p" "\<not> clean e self bad" by blast
  show False
  proof (cases "is_str bad")
    case False
    from multi_outer_not_string[OF assms(1) dec(2) this, of rest h] assms(2) dec(1) show False by simp
  next
    case True
    with unclean[OF dec(3)] obtain err where b: "found e self bad \<noteq> []" "gender_label_of bad = Inl err"
      by blast
    from multi_outer_bad[OF assms(1) dec(2) b(2) b(1), of rest h] assms(2) dec(1) show False by simp
  qed
qed

lemma base_success_strings:
  assumes "for_each (\<lambda>profile. for_each (base_body e self profile) file_names) profiles h = (None, h')"
  shows "\<forall>c \<in> set profiles. is_str c"
proof (rule ccontr)
  assume "\<not> (\<forall>c \<in> set profiles. is_str c)"
  then obtain pre bad rest where
    dec: "profiles = pre @ bad # rest" "\<forall>c \<in> set pre. is_str c" "\<not> is_str bad"
    using split_list_first_prop[of profiles "\<lambda>c. \<not> is_str c"] by auto
  from base_outer_not_string[OF dec(2,3), of e self rest h] assms dec(1) show False by simp
qed

lemma setup_success:
  assumes "self_setup e d h = (None, h')"
  shows "\<exists>ps gs. read_profiles e (meta_path d) = Inr ps
     \<and> h' = extend h (paths_of (entries e d ps)) (labels_of (entries e d ps)) gs
     \<and> length gs = (if klass d = MaskMultiLabelDataset then length (entries e d ps) else 0)"
proof (cases "read_profiles e (meta_path d)")
  case (Inl err)
  with assms show ?thesis
    by (cases "klass d") (simp_all add: self_setup_def MaskBaseDataset_setup_def MaskMultiLabelDataset_setup_def)
next
  case (Inr ps)
  show ?thesis
  proof (cases "klass d")
    case MaskBaseDataset
    with assms Inr have run: "for_each (\<lambda>profile. for_each (base_body e d profile) file_names) ps h = (None, h')"
      by (simp add: self_setup_def MaskBaseDataset_setup_def)
    from run base_outer[OF base_success_strings[OF run], of e d h]
    have "h' = extend h (paths_of (entries e d ps)) (labels_of (entries e d ps)) []" by simp
    with Inr MaskBaseDataset show ?thesis by auto
  next
    case MaskMultiLabelDataset
    with assms Inr have run: "for_each (\<lambda>profile. for_each (multi_body e d profile) file_names) ps h = (None, h')"
      by (simp add: self_setup_def multi_setup_unfold)
    have cl: "\<forall>p \<in> set ps. clean e d p" by (rule multi_success_clean[OF MaskMultiLabelDataset run])
    from run multi_outer_clean[OF MaskMultiLabelDataset cl, of h]
    have "h' = extend h (paths_of (entries e d ps)) (labels_of (entries e d ps)) (concat (map (genders_of e d) ps))"
      by simp
    with Inr MaskMultiLabelDataset length_genders_concat[OF cl] show ?thesis by auto
  qed
qed

lemma get_list_eq:
  "get_list d ''image_paths'' h = Inr (image_paths h)"
  "get_list d ''labels'' h = Inr (labels h)"
  by (simp_all add: get_list_def resolve_image_paths resolve_labels image_paths_def labels_def)

text \<open>
  C4. Two instances of the same class resolve \<^verbatim>\<open>image_paths\<close>, \<^verbatim>\<open>labels\<close> and
  \<^verbatim>\<open>gender_labels\<close> to the same list objects. After the second construction the first
  instance reads, through its own attributes, the entries it had after its own
  construction followed by the (path, label) entries of the second instance, and both
  instances read the same lists.
\<close>

theorem second_instance_shares_accumulators:
  assumes "init e1 c r1 m1 p1 mu1 sd1 h0 = (Inr d1, h1)"
      and "init e2 c r2 m2 p2 mu2 sd2 h1 = (Inr d2, h2)"
  shows "resolve (klass d1) ''image_paths'' = resolve (klass d2) ''image_paths''
       \<and> resolve (klass d1) ''labels'' = resolve (klass d2) ''labels''
       \<and> resolve (klass d1) ''gender_labels'' = resolve (klass d2) ''gender_labels''
       \<and> (\<exists>ps1 ps2 gs. read_profiles e1 m1 = Inr ps1 \<and> read_profiles e2 m2 = Inr ps2
            \<and> get_list d1 ''image_paths'' h1 = Inr (image_paths h0 @ paths_of (entries e1 d1 ps1))
            \<and> get_list d1 ''labels'' h1 = Inr (labels h0 @ labels_of (entries e1 d1 ps1))
            \<and> get_list d1 ''image_paths'' h2
                 = Inr (image_paths h0 @ paths_of (entries e1 d1 ps1) @ paths_of (entries e2 d2 ps2))
            \<and> get_list d1 ''labels'' h2
                 = Inr (labels h0 @ labels_of (entries e1 d1 ps1) @ labels_of (entries e2 d2 ps2))
            \<and> gender_labels h2 = gender_labels h1 @ gs
            \<and> length gs = (if c = MaskMultiLabelDataset then length (entries e2 d2 ps2) else 0))
       \<and> get_list d2 ''image_paths'' h2 = get_list d1 ''image_paths'' h2
       \<and> get_list d2 ''labels'' h2 = get_list d1 ''labels'' h2"
proof -
  note i1 = init_success[OF assms(1)] and i2 = init_success[OF assms(2)]
  from i1 setup_success[of e1 d1 h0 h1] obtain ps1 gs1 where
    s1: "read_profiles e1 m1 = Inr ps1"
        "h1 = extend h0 (paths_of (entries e1 d1 ps1)) (labels_of (entries e1 d1 ps1)) gs1" by auto
  from i2 setup_success[of e2 d2 h1 h2] obtain ps2 gs2 where
    s2: "read_profiles e2 m2 = Inr ps2"
        "h2 = extend h1 (paths_of (entries e2 d2 ps2)) (labels_of (entries e2 d2 ps2)) gs2"
        "length gs2 = (if c = MaskMultiLabelDataset then length (entries e2 d2 ps2) else 0)" by auto
  have "\<exists>ps1 ps2 gs. read_profiles e1 m1 = Inr ps1 \<and> read_profiles e2 m2 = Inr ps2
            \<and> get_list d1 ''image_paths'' h1 = Inr (image_paths h0 @ paths_of (entries e1 d1 ps1))
            \<and> get_list d1 ''labels'' h1 = Inr (labels h0 @ labels_of (entries e1 d1 ps1))
            \<and> get_list d1 ''image_paths'' h2
                 = Inr (image_paths h0 @ paths_of (entries e1 d1 ps1) @ paths_of (entries e2 d2 ps2))
            \<and> get_list d1 ''labels'' h2
                 = Inr (labels h0 @ labels_of (entries e1 d1 ps1) @ labels_of (entries e2 d2 ps2))
            \<and> gender_labels h2 = gender_labels h1 @ gs
            \<and> length gs = (if c = MaskMultiLabelDataset then length (entries e2 d2 ps2) else 0)"
    apply (rule exI[of _ ps1], rule exI[of _ ps2], rule exI[of _ gs2])
    using s1 s2 by (simp add: get_list_eq lists_extend)
  moreover have "klass d1 = klass d2" using i1 i2 by simp
  ultimately show ?thesis by (simp add: get_list_eq)
qed

text \<open>
  The theorem above on two base datasets built one after the other over the same table:
  the second one finds the first one's entry already in the lists.
\<close>

theorem second_instance_shares_accumulators_witness:
  "init e0 MaskBaseDataset ''data'' ''meta.csv'' ''train'' None None module_heap
     = (Inr \<lparr>klass = MaskBaseDataset, img_root = ''data'', meta_path = ''meta.csv'', phase = ''train'',
            mean = Some (Vec [Some 0.5366, Some 0.5323, Some 0.5183]),
            std = Some (Vec [Some 0.2456, Some 0.2517, Some 0.2605])\<rparr>,
        extend module_heap [PStr ''data/000001_male_Asian_20/mask1.jpg''] [PInt 0] [])
   \<and> init e0 MaskBaseDataset ''data'' ''meta.csv'' ''test'' None None
        (extend module_heap [PStr ''data/000001_male_Asian_20/mask1.jpg''] [PInt 0] [])
     = (Inr \<lparr>klass = MaskBaseDataset, img_root = ''data'', meta_path = ''meta.csv'', phase = ''test'',
            mean = Some (Vec [Some 0.5366, Some 0.5323, Some 0.5183]),
            std = Some (Vec [Some 0.2456, Some 0.2517, Some 0.2605])\<rparr>,
        extend module_heap [PStr ''data/000001_male_Asian_20/mask1.jpg'', PStr ''data/000001_male_Asian_20/mask1.jpg'']
          [PInt 0, PInt 0] [])
   \<and> get_list \<lparr>klass = MaskBaseDataset, img_root = ''data'', meta_path = ''meta.csv'', phase = ''test'',
            mean = Some (Vec [Some 0.5366, Some 0.5323, Some 0.5183]),
            std = Some (Vec [Some 0.2456, Some 0.2517, Some 0.2605])\<rparr> ''image_paths''
         (extend module_heap [PStr ''data/000001_male_Asian_20/mask1.jpg'', PStr ''data/000001_male_Asian_20/mask1.jpg'']
          [PInt 0, PInt 0] [])
     = get_list \<lparr>klass = MaskBaseDataset, img_root = ''data'', meta_path = ''meta.csv'', phase = ''train'',
            mean = Some (Vec [Some 0.5366, Some 0.5323, Some 0.5183]),
            std = Some (Vec [Some 0.2456, Some 0.2517, Some 0.2605])\<rparr> ''image_paths''
         (extend module_heap [PStr ''data/000001_male_Asian_20/mask1.jpg'', PStr ''data/000001_male_Asian_20/mask1.jpg'']
          [PInt 0, PInt 0] [])"
proof -
  have a: "init e0 MaskBaseDataset ''data'' ''meta.csv'' ''train'' None None module_heap
     = (Inr \<lparr>klass = MaskBaseDataset, img_root = ''data'', meta_path = ''meta.csv'', phase = ''train'',
            mean = Some (Vec [Some 0.5366, Some 0.5323, Some 0.5183]),
            std = Some (Vec [Some 0.2456, Some 0.2517, Some 0.2605])\<rparr>,
        extend module_heap [PStr ''data/000001_male_Asian_20/mask1.jpg''] [PInt 0] [])"
    by (simp add: init_unfold base_setup_e0)
  have b: "init e0 MaskBaseDataset ''data'' ''meta.csv'' ''test'' None None
        (extend module_heap [PStr ''data/000001_male_Asian_20/mask1.jpg''] [PInt 0] [])
     = (Inr \<lparr>klass = MaskBaseDataset, img_root = ''data'', meta_path = ''meta.csv'', phase = ''test'',
            mean = Some (Vec [Some 0.5366, Some 0.5323, Some 0.5183]),
            std = Some (Vec [Some 0.2456, Some 0.2517, Some 0.2605])\<rparr>,
        extend module_heap [PStr ''data/000001_male_Asian_20/mask1.jpg'', PStr ''data/000001_male_Asian_20/mask1.jpg'']
          [PInt 0, PInt 0] [])"
    by (simp add: init_unfold base_setup_e0 extend_extend)
  from second_instance_shares_accumulators[OF a b] a b show ?thesis by blast
qed

section \<open>Transform pipelines\<close>

lemma noise_changes_tensor:
  assumes "x \<noteq> []"
  shows "AddGaussianNoise 0 1 (\<lambda>k. n k + 1) x \<noteq> AddGaussianNoise 0 1 n x"
proof -
  from assms obtain a xs where x: "x = a # xs" by (cases x) auto
  have "hd (AddGaussianNoise 0 1 (\<lambda>k. n k + 1) x) = a + (n 0 + 1)"
       "hd (AddGaussianNoise 0 1 n x) = a + n 0"
    by (simp_all add: AddGaussianNoise_def x upt_conv_Cons del: upt_Suc)
  then show ?thesis by auto
qed

lemma noise_length: "length (AddGaussianNoise m s n x) = length x"
  by (simp add: AddGaussianNoise_def)

text \<open>
  C8. With the random numbers of a call made explicit, the result of \<^verbatim>\<open>transform\<close> in the
  phase \<^verbatim>\<open>test\<close> does not depend on them: two calls on the same image agree. In the phase
  \<^verbatim>\<open>train\<close> it does: whenever a call returns a non-empty tensor, the call with another
  noise sample returns a different one.
\<close>

theorem test_deterministic_train_randomized:
  "(phase self = ''test'' \<longrightarrow> transform L self d1 img = transform L self d2 img)
   \<and> (phase self = ''train'' \<and> transform L self d img = Inr t \<and> t \<noteq> []
        \<longrightarrow> transform L self (d\<lparr>noise := \<lambda>k. noise d k + 1\<rparr>) img \<noteq> transform L self d img)"
proof (intro conjI impI)
  assume "phase self = ''test''"
  then show "transform L self d1 img = transform L self d2 img" by (simp add: transform_def)
next
  assume a: "phase self = ''train'' \<and> transform L self d img = Inr t \<and> t \<noteq> []"
  then have tr: "train_transform L self d img = Inr t" by (auto simp: transform_def)
  then obtain x6 where x6: "t = AddGaussianNoise 0 1 (noise d) x6"
     "train_transform L self (d\<lparr>noise := \<lambda>k. noise d k + 1\<rparr>) img = Inr (AddGaussianNoise 0 1 (\<lambda>k. noise d k + 1) x6)"
    by (auto simp: train_transform_def bind_err_def split: sum.splits)
  from a x6(1) have "x6 \<noteq> []" using noise_length[of 0 1 "noise d" x6] by auto
  from noise_changes_tensor[OF this, of "noise d"] x6 tr a
  show "transform L self (d\<lparr>noise := \<lambda>k. noise d k + 1\<rparr>) img \<noteq> transform L self d img"
    by (simp add: transform_def)
qed

text \<open>
  The theorem above with every library transform the identity, on a one-element image.
\<close>

theorem test_deterministic_train_randomized_witness:
  "phase ((example_self MaskBaseDataset)\<lparr>phase := ''test''\<rparr>) = ''test''
   \<and> transform example_lib ((example_self MaskBaseDataset)\<lparr>phase := ''test''\<rparr>) zero_draws [1/2]
       = transform example_lib ((example_self MaskBaseDataset)\<lparr>phase := ''test''\<rparr>) (zero_draws\<lparr>noise := \<lambda>k. 1\<rparr>) [1/2]
   \<and> phase (example_self MaskBaseDataset) = ''train''
   \<and> transform example_lib (example_self MaskBaseDataset) zero_draws [1/2] = Inr [1/2]
   \<and> transform example_lib (example_self MaskBaseDataset) (zero_draws\<lparr>noise := \<lambda>k. noise zero_draws k + 1\<rparr>) [1/2]
       \<noteq> transform example_lib (example_self MaskBaseDataset) zero_draws [1/2]"
proof -
  have t: "transform example_lib (example_self MaskBaseDataset) zero_draws [1/2] = Inr [1/2]"
    by (simp add: transform_def train_transform_def example_self_def example_lib_def zero_draws_def
         bind_err_def AddGaussianNoise_def)
  have p: "phase (example_self MaskBaseDataset) = ''train''" by (simp add: example_self_def)
  have q: "phase ((example_self MaskBaseDataset)\<lparr>phase := ''test''\<rparr>) = ''test''" by simp
  from test_deterministic_train_randomized[of "(example_self MaskBaseDataset)\<lparr>phase := ''test''\<rparr>" example_lib
         zero_draws "[1/2]" "zero_draws\<lparr>noise := \<lambda>k. 1\<rparr>"] q
  have one: "transform example_lib ((example_self MaskBaseDataset)\<lparr>phase := ''test''\<rparr>) zero_draws [1/2]
       = transform example_lib ((example_self MaskBaseDataset)\<lparr>phase := ''test''\<rparr>) (zero_draws\<lparr>noise := \<lambda>k. 1\<rparr>) [1/2]"
    by blast
  from test_deterministic_train_randomized[of "example_self MaskBaseDataset" example_lib _ "[1/2]" _ zero_draws "[1/2]"] p t
  have two: "transform example_lib (example_self MaskBaseDataset) (zero_draws\<lparr>noise := \<lambda>k. noise zero_draws k + 1\<rparr>) [1/2]
       \<noteq> transform example_lib (example_self MaskBaseDataset) zero_draws [1/2]"
    by blast
  from one two p q t show ?thesis by blast
qed

section \<open>Freezing the backbone\<close>

lemma parameters_map_freeze:
  "q \<in> set (parameters (map freeze_layer ls)) \<Longrightarrow> \<not> requires_grad q"
  by (auto simp: parameters_def layer_parameters_def freeze_layer_def freeze_param_def split: option.splits)

lemma init_layer_keeps_grad:
  "(\<forall>q \<in> set (layer_parameters l). requires_grad q) \<Longrightarrow> (\<forall>q \<in> set (layer_parameters (init_layer l)). requires_grad q)"
  by (cases "weight l"; cases "bias l"; cases "kind l") (auto simp: layer_parameters_def init_layer_def fill_def)

lemma parameters_init_keeps_grad:
  "(\<forall>q \<in> set (parameters ls). requires_grad q) \<Longrightarrow> (\<forall>q \<in> set (parameters (map init_layer ls)). requires_grad q)"
  using init_layer_keeps_grad by (fastforce simp: parameters_def)

lemma build_classifier_grad:
  "build_layers a n p = Inr m \<Longrightarrow> \<forall>q \<in> set (parameters (classifier m)). requires_grad q"
  by (cases a) (auto simp: build_layers_def parameters_def layer_parameters_def with_params_def plain_def new_param_def)

lemma build_arch: "build_layers a n p = Inr m \<Longrightarrow> arch m = a \<and> a \<noteq> MaskBaseModel"
  by (cases a) (auto simp: build_layers_def)

text \<open>
  C6. A model constructed with \<^verbatim>\<open>freeze=True\<close> has a backbone and a classifier; every
  parameter of the backbone has \<^verbatim>\<open>requires_grad\<close> false and every parameter of the
  classifier has it true.
\<close>

theorem freeze_backbone_only:
  assumes "construct a n p True = Inr m"
  shows "\<exists>bl cl. backbone_layers m = Inr bl \<and> classifier_layers m = Inr cl
     \<and> (\<forall>q \<in> set (parameters bl). \<not> requires_grad q)
     \<and> (\<forall>q \<in> set (parameters cl). requires_grad q)"
proof -
  from assms obtain m0 where b: "build_layers a n p = Inr m0"
    by (auto simp: construct_def split: sum.splits)
  define m1 where "m1 = (if \<not> p then initialize_weights m0 else m0)"
  from assms b have f: "freeze_net m1 = Inr m" by (simp add: construct_def m1_def Let_def)
  have a1: "arch m1 = a" "a \<noteq> MaskBaseModel" using build_arch[OF b] by (auto simp: m1_def initialize_weights_def)
  have c1: "\<forall>q \<in> set (parameters (classifier m1)). requires_grad q"
    using build_classifier_grad[OF b] parameters_init_keeps_grad by (auto simp: m1_def initialize_weights_def)
  from f a1 have m: "m = m1\<lparr>features := map freeze_layer (features m1)\<rparr>"
    by (cases a) (auto simp: freeze_net_def backbone_layers_def)
  have "backbone_layers m = Inr (map freeze_layer (features m1))" "classifier_layers m = Inr (classifier m1)"
    using a1 by (cases a; simp add: m backbone_layers_def classifier_layers_def)+
  then show ?thesis using c1 parameters_map_freeze by auto
qed

lemma construct_alexnet: "construct AlexNet 3 False True = Inr alexnet_frozen"
  by (simp add: construct_def build_layers_def initialize_weights_def freeze_net_def backbone_layers_def
       init_layer_def freeze_layer_def with_params_def plain_def new_param_def fill_def freeze_param_def
       alexnet_frozen_def frozen_conv_def trainable_linear_def)

lemma flags_all:
  "(\<forall>q \<in> set ps. requires_grad q = b) \<Longrightarrow> map requires_grad ps = replicate (length ps) b"
  by (induction ps) simp_all

text \<open>
  The theorem above on \<^verbatim>\<open>AlexNet(3, pretrained=False, freeze=True)\<close>: ten backbone
  parameters, all frozen, and six classifier parameters, all trainable.
\<close>

theorem freeze_backbone_only_witness:
  "construct AlexNet 3 False True = Inr alexnet_frozen
   \<and> backbone_layers alexnet_frozen = Inr (features alexnet_frozen)
   \<and> classifier_layers alexnet_frozen = Inr (classifier alexnet_frozen)
   \<and> map requires_grad (parameters (features alexnet_frozen)) = replicate 10 False
   \<and> map requires_grad (parameters (classifier alexnet_frozen)) = replicate 6 True"
proof -
  have b: "backbone_layers alexnet_frozen = Inr (features alexnet_frozen)"
          "classifier_layers alexnet_frozen = Inr (classifier alexnet_frozen)"
    by (simp_all add: backbone_layers_def classifier_layers_def alexnet_frozen_def)
  have n: "length (parameters (features alexnet_frozen)) = 10"
          "length (parameters (classifier alexnet_frozen)) = 6"
    by (simp_all add: alexnet_frozen_def parameters_def layer_parameters_def frozen_conv_def
         trainable_linear_def plain_def)
  from freeze_backbone_only[OF construct_alexnet] b
  have "(\<forall>q \<in> set (parameters (features alexnet_frozen)). requires_grad q = False)"
       "(\<forall>q \<in> set (parameters (classifier alexnet_frozen)). requires_grad q = True)" by auto
  from flags_all[OF this(1)] flags_all[OF this(2)] n
  have "map requires_grad (parameters (features alexnet_frozen)) = replicate 10 False"
       "map requires_grad (parameters (classifier alexnet_frozen)) = replicate 6 True"
    by simp_all
  with construct_alexnet b show ?thesis by blast
qed

section \<open>Phase selection\<close>

text \<open>
  C5. \<^verbatim>\<open>set_phase\<close> raises for every phase other than \<^verbatim>\<open>train\<close> and \<^verbatim>\<open>test\<close> and
  stores the phase for these two; with the phase \<^verbatim>\<open>train\<close> the call \<^verbatim>\<open>transform\<close>
  applies the train pipeline, with \<^verbatim>\<open>test\<close> the test pipeline, and with any other phase
  it raises \<^verbatim>\<open>AttributeError\<close>.
\<close>

theorem set_phase_and_transform:
  "(phase_arg \<noteq> ''train'' \<and> phase_arg \<noteq> ''test'' \<longrightarrow> set_phase self phase_arg = Inl AssertionError)
 \<and> (phase_arg = ''train'' \<or> phase_arg = ''test'' \<longrightarrow> set_phase self phase_arg = Inr (self\<lparr>phase := phase_arg\<rparr>))
 \<and> transform L (self\<lparr>phase := ''train''\<rparr>) d img = train_transform L (self\<lparr>phase := ''train''\<rparr>) d img
 \<and> transform L (self\<lparr>phase := ''test''\<rparr>) d img = test_transform L (self\<lparr>phase := ''test''\<rparr>) img
 \<and> (phase self \<noteq> ''train'' \<and> phase self \<noteq> ''test'' \<longrightarrow> transform L self d img = Inl AttributeError)"
  by (auto simp: set_phase_def transform_def)

text \<open>
  The theorem above on a dataset whose phase is \<open>val\<close>.
\<close>

theorem set_phase_and_transform_witness:
  "set_phase ((example_self MaskBaseDataset)\<lparr>phase := ''val''\<rparr>) ''val'' = Inl AssertionError
   \<and> set_phase ((example_self MaskBaseDataset)\<lparr>phase := ''val''\<rparr>) ''test''
       = Inr ((example_self MaskBaseDataset)\<lparr>phase := ''test''\<rparr>)
   \<and> phase ((example_self MaskBaseDataset)\<lparr>phase := ''val''\<rparr>) = ''val''
   \<and> transform example_lib ((example_self MaskBaseDataset)\<lparr>phase := ''val''\<rparr>) zero_draws [1/2] = Inl AttributeError"
  using set_phase_and_transform[of "''val''" "(example_self MaskBaseDataset)\<lparr>phase := ''val''\<rparr>" example_lib zero_draws "[1/2]"]
        set_phase_and_transform[of "''test''" "(example_self MaskBaseDataset)\<lparr>phase := ''val''\<rparr>" example_lib zero_draws "[1/2]"]
  by simp

section \<open>Channel statistics in the constructor\<close>

text \<open>
  C1. The constructor does not use the statistics it is given and computes none. Built
  without \<^verbatim>\<open>mean\<close> and \<^verbatim>\<open>std\<close>, the dataset carries the two literal lists of
  \<^verbatim>\<open>__init__\<close>; built with mean \<open>[0, 0, 0]\<close> and std \<open>[1, 1, 1]\<close>, it carries the same
  literal lists. \<^verbatim>\<open>calc_statistics\<close> on the same image paths, run with both fields unset,
  gives the mean \<open>[1, 1, 1]\<close>, which the constructed dataset does not have.
\<close>

theorem init_ignores_supplied_statistics:
  "fst (init e0 MaskBaseDataset ''data'' ''meta.csv'' ''train'' None None module_heap)
     = Inr \<lparr>klass = MaskBaseDataset, img_root = ''data'', meta_path = ''meta.csv'', phase = ''train'',
            mean = Some (Vec [Some 0.5366, Some 0.5323, Some 0.5183]),
            std = Some (Vec [Some 0.2456, Some 0.2517, Some 0.2605])\<rparr>
   \<and> fst (init e0 MaskBaseDataset ''data'' ''meta.csv'' ''train''
            (Some (Vec [Some 0, Some 0, Some 0])) (Some (Vec [Some 1, Some 1, Some 1])) module_heap)
     = Inr \<lparr>klass = MaskBaseDataset, img_root = ''data'', meta_path = ''meta.csv'', phase = ''train'',
            mean = Some (Vec [Some 0.5366, Some 0.5323, Some 0.5183]),
            std = Some (Vec [Some 0.2456, Some 0.2517, Some 0.2605])\<rparr>
   \<and> map_sum id mean (calc_statistics e0 (example_self MaskBaseDataset) after_base)
     = Inr (Some (Vec [Some 1, Some 1, Some 1]))"
  by (simp add: init_unfold base_setup_e0 calc_e0)

text \<open>
  C3. On one image of a single white pixel, \<^verbatim>\<open>calc_statistics\<close> (run with both fields
  unset) returns the per-channel std \<open>sqrt 65024 / 255\<close>, above \<open>254 / 255\<close>, where
  the relation of the specification gives 0: the mean subtracted under the root is already
  divided by 255 while the mean of the squares is not.
\<close>

theorem std_is_not_the_variance_relation:
  "image_paths after_base = [PStr ''data/000001_male_Asian_20/mask1.jpg'']
   \<and> image_open e0 ''data/000001_male_Asian_20/mask1.jpg'' = Inr [(255, 255, 255)]
   \<and> map_sum id std (calc_statistics e0 (example_self MaskBaseDataset) after_base)
       = Inr (Some (Vec [Some (sqrt 65024 / 255), Some (sqrt 65024 / 255), Some (sqrt 65024 / 255)]))
   \<and> spec_std [255] = 0
   \<and> 254 / 255 < sqrt 65024 / 255"
proof -
  have "(254::real) < sqrt 65024" by (rule real_less_rsqrt) simp
  then have gap: "254 / 255 < sqrt 65024 / 255" by simp
  have opened: "image_open e0 ''data/000001_male_Asian_20/mask1.jpg'' = Inr [(255, 255, 255)]"
    by (simp add: e0_def example_env_def)
  have listed: "image_paths after_base = [PStr ''data/000001_male_Asian_20/mask1.jpg'']"
    by (simp add: after_base_eq lists_extend lists_module_heap)
  have spec: "spec_std [255] = 0" by (simp add: spec_std_def)
  from gap opened listed spec show ?thesis by (simp add: calc_e0)
qed

end
